theory Spec2Isabelle
  imports Main "HOL-Library.Multiset"
begin

section \<open>Data model\<close>

text \<open>
  The two merge scripts, \<^verbatim>\<open>merge_layers.py\<close> and \<^verbatim>\<open>merge_navigator_layers.py\<close>,
  work on ATT&CK Navigator layers. A layer holds a list of technique objects; the
  fields the scripts read or write are fields of the records below. A field that
  Python reads as \<^verbatim>\<open>None\<close> when unset is an \<open>option\<close>. Scores are Python
  integers (unbounded), strings are lists of characters, a character standing for a
  code point below 256.

  An exception that the scripts do not catch, and a call of \<^verbatim>\<open>exit\<close>, end the run:
  they are values of \<open>failure\<close>.
\<close>

datatype failure = TypeError | Exit nat

record Technique =
  techniqueID :: string
  tacticName :: "string option"
  score :: "int option"
  comment :: "string option"
  enabled :: "bool option"
  showSubtechniques :: "bool option"
  color :: "string option"

record Layout =
  showAggregateScores :: bool
  aggregateFunction :: string
  showID :: bool
  showName :: bool
  layout_style :: string
  countUnscored :: bool

record Gradient =
  colors :: "string list"
  minValue :: int
  maxValue :: int

record LegendItem =
  label :: string
  legend_color :: string

record Layer =
  name :: string
  description :: "string option"
  techniques :: "Technique list"
  hideDisabled :: "bool option"
  expandSubtechniques :: "bool option"
  selectTechniquesAcrossTactics :: "bool option"
  layout :: "Layout option"
  sorting :: "int option"
  gradient :: Gradient
  legendItems :: "LegendItem list"

section \<open>Strings\<close>

text \<open>
  \<^verbatim>\<open>str.strip()\<close> removes leading and trailing whitespace: the characters for which
  \<^verbatim>\<open>str.isspace\<close> holds, which below code point 256 are 9 to 13, 28 to 32, 133 and 160.
  \<^verbatim>\<open>str.strip(chars)\<close> removes the characters of \<^verbatim>\<open>chars\<close> instead.
\<close>

definition isspace :: "char \<Rightarrow> bool" where
  "isspace c =
     (let n = (of_char c :: nat)
      in (9 \<le> n \<and> n \<le> 13) \<or> (28 \<le> n \<and> n \<le> 32) \<or> n = 133 \<or> n = 160)"

definition strip_chars :: "(char \<Rightarrow> bool) \<Rightarrow> string \<Rightarrow> string" where
  "strip_chars p s = rev (dropWhile p (rev (dropWhile p s)))"

definition strip :: "string \<Rightarrow> string" where
  "strip s = strip_chars isspace s"

text \<open>\<^verbatim>\<open>sep.join(xs)\<close>.\<close>

fun join :: "string \<Rightarrow> string list \<Rightarrow> string" where
  "join sep [] = []"
| "join sep [x] = x"
| "join sep (x # y # ys) = x @ sep @ join sep (y # ys)"

text \<open>\<^verbatim>\<open>str(n)\<close> for the integers the scripts print into the description.\<close>

definition digit_char :: "nat \<Rightarrow> char" where
  "digit_char d = char_of (48 + d)"

fun str_nat :: "nat \<Rightarrow> string" where
  "str_nat n = (if n < 10 then [digit_char n] else str_nat (n div 10) @ [digit_char (n mod 10)])"

definition str_int :: "int \<Rightarrow> string" where
  "str_int i = (if i < 0 then CHR ''-'' # str_nat (nat (- i)) else str_nat (nat i))"

section \<open>Lookup\<close>

text \<open>
  \<^verbatim>\<open>find_technique_in_layer\<close> (the same text in both scripts) returns the first
  technique of the layer with the given identifier, or \<^verbatim>\<open>None\<close>. Python returns a
  reference to the object in the list; a later assignment to a field of it changes
  the list's element. \<open>update_technique\<close> is that write through the reference: it
  replaces the first technique with the identifier.
\<close>

fun find_technique_in_layer :: "string \<Rightarrow> Technique list \<Rightarrow> Technique option" where
  "find_technique_in_layer technique_id [] = None"
| "find_technique_in_layer technique_id (technique # rest) =
     (if techniqueID technique = technique_id then Some technique
      else find_technique_in_layer technique_id rest)"

fun update_technique :: "string \<Rightarrow> Technique \<Rightarrow> Technique list \<Rightarrow> Technique list" where
  "update_technique technique_id t' [] = []"
| "update_technique technique_id t' (technique # rest) =
     (if techniqueID technique = technique_id then t' # rest
      else technique # update_technique technique_id t' rest)"

section \<open>Normalizer\<close>

text \<open>
  The initialization loop (\<^verbatim>\<open>merge_layers.py\<close> lines 60 to 67,
  \<^verbatim>\<open>merge_navigator_layers.py\<close> lines 86 to 93, the same text): every technique of every
  layer gets score 0, comment \<^verbatim>\<open>""\<close> and enabled \<^verbatim>\<open>True\<close> where the field is \<^verbatim>\<open>None\<close>.
\<close>

definition init_technique :: "Technique \<Rightarrow> Technique" where
  "init_technique technique =
     (let t1 = (if score technique = None then technique\<lparr>score := Some 0\<rparr> else technique);
          t2 = (if comment t1 = None then t1\<lparr>comment := Some []\<rparr> else t1);
          t3 = (if enabled t2 = None then t2\<lparr>enabled := Some True\<rparr> else t2)
      in t3)"

definition init_layer :: "Layer \<Rightarrow> Layer" where
  "init_layer l = l\<lparr>techniques := map init_technique (techniques l)\<rparr>"

definition init_layers :: "Layer list \<Rightarrow> Layer list" where
  "init_layers ls = map init_layer ls"

section \<open>Merge loop\<close>

text \<open>
  The body of the merge loop for a technique already in the merged layer
  (\<^verbatim>\<open>merge_layers.py\<close> lines 84 to 97, \<^verbatim>\<open>merge_navigator_layers.py\<close> lines 110 to 123, the
  same text). \<^verbatim>\<open>if x:\<close> is Python's truth test: \<^verbatim>\<open>None\<close>, 0 and \<^verbatim>\<open>""\<close> are false.
  \<^verbatim>\<open>+=\<close> on a field that is \<^verbatim>\<open>None\<close> raises \<^verbatim>\<open>TypeError\<close>.
\<close>

fun is_true :: "bool option \<Rightarrow> bool" where
  "is_true None = False"
| "is_true (Some b) = b"

definition add_score :: "Technique \<Rightarrow> Technique \<Rightarrow> failure + Technique" where
  "add_score merged_layer_technique this_layer_technique =
     (case score this_layer_technique of
        None \<Rightarrow> Inr merged_layer_technique
      | Some b \<Rightarrow>
          if b = 0 then Inr merged_layer_technique
          else (case score merged_layer_technique of
                  None \<Rightarrow> Inl TypeError
                | Some a \<Rightarrow> Inr (merged_layer_technique\<lparr>score := Some (a + b)\<rparr>)))"

definition add_comment :: "Technique \<Rightarrow> Technique \<Rightarrow> failure + Technique" where
  "add_comment merged_layer_technique this_layer_technique =
     (case comment this_layer_technique of
        None \<Rightarrow> Inr merged_layer_technique
      | Some y \<Rightarrow>
          if y = [] then Inr merged_layer_technique
          else (case comment merged_layer_technique of
                  None \<Rightarrow> Inl TypeError
                | Some x \<Rightarrow>
                    Inr (merged_layer_technique\<lparr>comment := Some (x @ [CHR 0x0A, CHR 0x0A] @ y)\<rparr>)))"

definition disable :: "Technique \<Rightarrow> Technique \<Rightarrow> Technique" where
  "disable merged_layer_technique this_layer_technique =
     (if enabled this_layer_technique \<noteq> None \<and> \<not> is_true (enabled this_layer_technique)
      then merged_layer_technique\<lparr>enabled := Some False\<rparr>
      else merged_layer_technique)"

definition reconcile :: "Technique \<Rightarrow> Technique \<Rightarrow> failure + Technique" where
  "reconcile merged_layer_technique this_layer_technique =
     (case add_score merged_layer_technique this_layer_technique of
        Inl e \<Rightarrow> Inl e
      | Inr m1 \<Rightarrow>
          (case add_comment m1 this_layer_technique of
             Inl e \<Rightarrow> Inl e
           | Inr m2 \<Rightarrow> Inr (disable m2 this_layer_technique)))"

text \<open>
  One turn of the inner loop: look the technique up in the merged layer; reconcile
  when found, append the technique itself otherwise.
\<close>

definition merge_technique :: "Technique list \<Rightarrow> Technique \<Rightarrow> failure + Technique list" where
  "merge_technique merged this_layer_technique =
     (case find_technique_in_layer (techniqueID this_layer_technique) merged of
        Some merged_layer_technique \<Rightarrow>
          (case reconcile merged_layer_technique this_layer_technique of
             Inl e \<Rightarrow> Inl e
           | Inr m \<Rightarrow> Inr (update_technique (techniqueID this_layer_technique) m merged))
      | None \<Rightarrow> Inr (merged @ [this_layer_technique]))"

text \<open>The inner loop over the techniques of one layer, and the outer loop over the layers.\<close>

fun merge_techniques :: "Technique list \<Rightarrow> Technique list \<Rightarrow> failure + Technique list" where
  "merge_techniques merged [] = Inr merged"
| "merge_techniques merged (this_layer_technique # rest) =
     (case merge_technique merged this_layer_technique of
        Inl e \<Rightarrow> Inl e
      | Inr merged' \<Rightarrow> merge_techniques merged' rest)"

fun merge_loop :: "Technique list \<Rightarrow> Layer list \<Rightarrow> failure + Technique list" where
  "merge_loop merged [] = Inr merged"
| "merge_loop merged (l # ls) =
     (case merge_techniques merged (techniques l) of
        Inl e \<Rightarrow> Inl e
      | Inr merged' \<Rightarrow> merge_loop merged' ls)"

section \<open>Post-merge pass\<close>

text \<open>
  The pass over the merged techniques carries the running maximum score and the number
  of disabled techniques. \<^verbatim>\<open>technique.score > max_score\<close> raises \<^verbatim>\<open>TypeError\<close> on a
  score that is \<^verbatim>\<open>None\<close>. \<^verbatim>\<open>merge_navigator_layers.py\<close> also resets the color
  (line 132); the rest of the body is the same text in both scripts.
\<close>

definition strip_comment :: "Technique \<Rightarrow> Technique" where
  "strip_comment technique =
     (case comment technique of
        None \<Rightarrow> technique
      | Some c \<Rightarrow> if c = [] then technique else technique\<lparr>comment := Some (strip c)\<rparr>)"

definition post_body :: "int \<times> nat \<Rightarrow> Technique \<Rightarrow> failure + ((int \<times> nat) \<times> Technique)" where
  "post_body st technique =
     (case st of (mx, number_disabled) \<Rightarrow>
        if \<not> is_true (enabled technique) then Inr ((mx, number_disabled + 1), technique)
        else (case score technique of
                None \<Rightarrow> Inl TypeError
              | Some s \<Rightarrow> Inr ((if s > mx then s else mx, number_disabled), strip_comment technique)))"

definition post_technique_ml ::
  "int \<times> nat \<Rightarrow> Technique \<Rightarrow> failure + ((int \<times> nat) \<times> Technique)" where
  "post_technique_ml st technique = post_body st (technique\<lparr>showSubtechniques := Some False\<rparr>)"

definition post_technique_mnl ::
  "int \<times> nat \<Rightarrow> Technique \<Rightarrow> failure + ((int \<times> nat) \<times> Technique)" where
  "post_technique_mnl st technique =
     post_body st (technique\<lparr>showSubtechniques := Some False, color := Some []\<rparr>)"

fun post_merge_ml ::
  "int \<times> nat \<Rightarrow> Technique list \<Rightarrow> failure + ((int \<times> nat) \<times> Technique list)" where
  "post_merge_ml st [] = Inr (st, [])"
| "post_merge_ml st (technique # rest) =
     (case post_technique_ml st technique of
        Inl e \<Rightarrow> Inl e
      | Inr (st', t') \<Rightarrow>
          (case post_merge_ml st' rest of
             Inl e \<Rightarrow> Inl e
           | Inr (st'', rest') \<Rightarrow> Inr (st'', t' # rest')))"

fun post_merge_mnl ::
  "int \<times> nat \<Rightarrow> Technique list \<Rightarrow> failure + ((int \<times> nat) \<times> Technique list)" where
  "post_merge_mnl st [] = Inr (st, [])"
| "post_merge_mnl st (technique # rest) =
     (case post_technique_mnl st technique of
        Inl e \<Rightarrow> Inl e
      | Inr (st', t') \<Rightarrow>
          (case post_merge_mnl st' rest of
             Inl e \<Rightarrow> Inl e
           | Inr (st'', rest') \<Rightarrow> Inr (st'', t' # rest')))"

section \<open>Source names\<close>

text \<open>
  \<^verbatim>\<open>re.search("[A-Z][0-9]{4}", s)\<close> finds the leftmost place of \<^verbatim>\<open>s\<close> where an
  uppercase ASCII letter is followed by four ASCII digits; the match is those five
  characters. \<^verbatim>\<open>re.search("\\([A-Z][0-9]{4}\\)", s)\<close> wants the five characters between
  parentheses; the match is the seven characters.
\<close>

definition is_upper :: "char \<Rightarrow> bool" where
  "is_upper c = (65 \<le> (of_char c :: nat) \<and> (of_char c :: nat) \<le> 90)"

definition is_digit :: "char \<Rightarrow> bool" where
  "is_digit c = (48 \<le> (of_char c :: nat) \<and> (of_char c :: nat) \<le> 57)"

fun match_id :: "string \<Rightarrow> bool" where
  "match_id (a # b # c # d # e # _) =
     (is_upper a \<and> is_digit b \<and> is_digit c \<and> is_digit d \<and> is_digit e)"
| "match_id _ = False"

fun search_id :: "string \<Rightarrow> string option" where
  "search_id [] = None"
| "search_id (c # cs) = (if match_id (c # cs) then Some (take 5 (c # cs)) else search_id cs)"

fun match_paren_id :: "string \<Rightarrow> bool" where
  "match_paren_id (p # a # b # c # d # e # q # _) =
     (p = CHR ''('' \<and> is_upper a \<and> is_digit b \<and> is_digit c \<and> is_digit d \<and> is_digit e
      \<and> q = CHR '')'')"
| "match_paren_id _ = False"

fun search_paren_id :: "string \<Rightarrow> string option" where
  "search_paren_id [] = None"
| "search_paren_id (c # cs) =
     (if match_paren_id (c # cs) then Some (take 7 (c # cs)) else search_paren_id cs)"

definition name_warning :: "string \<Rightarrow> string" where
  "name_warning file_name =
     ''Could not parse the name of '' @ file_name @ '', filename will be used instead.''"

text \<open>
  \<^verbatim>\<open>merge_layers.py\<close> lines 45 to 50. The result is the lines printed and the label.
  \<^verbatim>\<open>re.search\<close> on a description that is \<^verbatim>\<open>None\<close> raises \<^verbatim>\<open>TypeError\<close>, which the
  \<^verbatim>\<open>except AttributeError\<close> clause does not catch; a search without a match returns
  \<^verbatim>\<open>None\<close>, and \<^verbatim>\<open>.group\<close> on it raises the \<^verbatim>\<open>AttributeError\<close> that is caught.
  The fallback is the path's last component:
  \<^verbatim>\<open>json_file_path.replace('\\', '/').split('/')[-1]\<close>.
\<close>

definition file_name_of_path :: "string \<Rightarrow> string" where
  "file_name_of_path json_file_path =
     rev (takeWhile (\<lambda>c. c \<noteq> CHR ''/'')
            (rev (map (\<lambda>c. if c = CHR 0x5C then CHR ''/'' else c) json_file_path)))"

definition layer_name_ml :: "Layer \<Rightarrow> string \<Rightarrow> failure + (string list \<times> string)" where
  "layer_name_ml new_layer json_file_path =
     (case description new_layer of
        None \<Rightarrow> Inl TypeError
      | Some d \<Rightarrow>
          (case search_id d of
             Some g \<Rightarrow> Inr ([], g)
           | None \<Rightarrow> Inr ([name_warning json_file_path], file_name_of_path json_file_path)))"

text \<open>
  \<^verbatim>\<open>get_layer_name\<close> of \<^verbatim>\<open>merge_navigator_layers.py\<close>: the search is in the layer's
  name, which every loaded layer has, and the match loses its parentheses by
  \<^verbatim>\<open>.strip("()")\<close>.
\<close>

definition get_layer_name :: "Layer \<Rightarrow> string \<Rightarrow> string list \<times> string" where
  "get_layer_name layer file_name =
     (case search_paren_id (name layer) of
        Some g \<Rightarrow> ([], strip_chars (\<lambda>c. c = CHR ''('' \<or> c = CHR '')'') g)
      | None \<Rightarrow> ([name_warning file_name], file_name))"

section \<open>Metadata\<close>

text \<open>
  The scripts assign into the gradient object of the seed layer and clear and refill
  its legend list; layers are taken to carry both, as the document shape of the
  specification has them. The two legend labels are French; their \<^verbatim>\<open>e\<close> with an
  acute accent is code point 233.
\<close>

definition most_frequent :: string where
  "most_frequent = ''La plus fr'' @ [CHR 0xE9] @ ''quente''"

definition least_frequent :: string where
  "least_frequent = ''La moins fr'' @ [CHR 0xE9] @ ''quente''"

definition flat_layout :: Layout where
  "flat_layout =
     \<lparr>showAggregateScores = True, aggregateFunction = ''max'', showID = False,
      showName = True, layout_style = ''flat'', countUnscored = False\<rparr>"

text \<open>
  Lines 120 to 137 of \<^verbatim>\<open>merge_layers.py\<close> and 147 to 164 of
  \<^verbatim>\<open>merge_navigator_layers.py\<close> (the same text): everything but description and name.
\<close>

definition set_display :: "Layer \<Rightarrow> int \<Rightarrow> Layer" where
  "set_display merged mx =
     (let g = (gradient merged)\<lparr>colors := [''#ffffff00'', ''#ff6666ff''], minValue := 0,
                                 maxValue := mx\<rparr>
      in merged\<lparr>hideDisabled := Some True,
                expandSubtechniques := Some False,
                selectTechniquesAcrossTactics := Some True,
                layout := Some flat_layout,
                sorting := Some 3,
                gradient := g,
                legendItems :=
                  [\<lparr>label = most_frequent, legend_color = colors g ! 1\<rparr>,
                   \<lparr>label = least_frequent, legend_color = colors g ! 0\<rparr>]\<rparr>)"

definition set_metadata_ml :: "Layer \<Rightarrow> string list \<Rightarrow> int \<Rightarrow> Layer" where
  "set_metadata_ml merged layer_names mx =
     set_display
       (merged\<lparr>description := Some (''ATT&CK Techniques used by '' @ strip (join '', '' layer_names)),
               name := ''Matrix of aggregated techniques''\<rparr>) mx"

definition set_metadata_mnl :: "Layer \<Rightarrow> (Layer \<times> string) list \<Rightarrow> int \<Rightarrow> Layer" where
  "set_metadata_mnl merged layers_to_filename mx =
     set_display
       (merged\<lparr>description :=
                 Some (''ATT&CK Techniques used by ''
                       @ strip (join '', '' (map (\<lambda>(l, f). snd (get_layer_name l f)) layers_to_filename))
                       @ ''. Maximum score is '' @ str_int mx),
               name := str_nat (length layers_to_filename) @ '' layers merged''\<rparr>) mx"

section \<open>The two scripts\<close>

record merge_output =
  merged_layer :: Layer
  max_score :: int
  number_of_techniques_disabled :: nat

text \<open>
  A file is its path and what loading it gives: \<open>None\<close> stands for the
  \<^verbatim>\<open>JSONDecodeError\<close> of a file that does not parse.

  \<^verbatim>\<open>merge_layers.py\<close>, the body of the loop over paths. The import loop (lines 34 to 50)
  ends the run with \<^verbatim>\<open>exit(1)\<close> at the first file that does not parse, and collects the
  layers, their names and the warnings printed. A path without layers is skipped
  (result \<open>None\<close>). Then the layers are initialized, the last one is popped as the merged
  layer, the others are merged into it in order, and the post-merge pass starts from
  the maximum score 1.
\<close>

fun import_ml ::
  "(string \<times> Layer option) list \<Rightarrow> failure + (Layer list \<times> string list \<times> string list)" where
  "import_ml [] = Inr ([], [], [])"
| "import_ml ((json_file_path, parsed) # rest) =
     (case parsed of
        None \<Rightarrow> Inl (Exit 1)
      | Some new_layer \<Rightarrow>
          (case layer_name_ml new_layer json_file_path of
             Inl e \<Rightarrow> Inl e
           | Inr (w, n) \<Rightarrow>
               (case import_ml rest of
                  Inl e \<Rightarrow> Inl e
                | Inr (layers, layer_names, ws) \<Rightarrow> Inr (new_layer # layers, n # layer_names, w @ ws))))"

definition merge_ml :: "Layer list \<Rightarrow> string list \<Rightarrow> failure + merge_output option" where
  "merge_ml layers0 layer_names =
     (if length layers0 = 0 then Inr None
      else
        let layers = init_layers layers0;
            seed = last layers;
            others = butlast layers
        in case merge_loop (techniques seed) others of
             Inl e \<Rightarrow> Inl e
           | Inr merged \<Rightarrow>
               (case post_merge_ml (1, 0) merged of
                  Inl e \<Rightarrow> Inl e
                | Inr ((mx, number_disabled), ts) \<Rightarrow>
                    Inr (Some \<lparr>merged_layer = set_metadata_ml (seed\<lparr>techniques := ts\<rparr>) layer_names mx,
                               max_score = mx,
                               number_of_techniques_disabled = number_disabled\<rparr>)))"

definition merge_layers_path :: "(string \<times> Layer option) list \<Rightarrow> failure + merge_output option" where
  "merge_layers_path files =
     (case import_ml files of
        Inl e \<Rightarrow> Inl e
      | Inr (layers, layer_names, ws) \<Rightarrow> merge_ml layers layer_names)"

text \<open>
  \<^verbatim>\<open>merge_navigator_layers.py\<close>. The import loop (lines 63 to 73) skips a file that does
  not parse and maps each layer to its file name up to the first dot; the dictionary
  is keyed by the layer objects, which are all different, so it is the list of pairs
  in insertion order. Without layers the run ends with \<^verbatim>\<open>exit(0)\<close>. The post-merge pass
  starts from the maximum score 0.
\<close>

fun import_mnl :: "(string \<times> Layer option) list \<Rightarrow> (Layer \<times> string) list" where
  "import_mnl [] = []"
| "import_mnl ((json_file_path, parsed) # rest) =
     (case parsed of
        None \<Rightarrow> import_mnl rest
      | Some new_layer \<Rightarrow>
          (new_layer, takeWhile (\<lambda>c. c \<noteq> CHR ''.'') json_file_path) # import_mnl rest)"

definition merge_mnl :: "(Layer \<times> string) list \<Rightarrow> failure + merge_output" where
  "merge_mnl layers_to_filename =
     (if length layers_to_filename = 0 then Inl (Exit 0)
      else
        let layers = init_layers (map fst layers_to_filename);
            seed = last layers;
            others = butlast layers
        in case merge_loop (techniques seed) others of
             Inl e \<Rightarrow> Inl e
           | Inr merged \<Rightarrow>
               (case post_merge_mnl (0, 0) merged of
                  Inl e \<Rightarrow> Inl e
                | Inr ((mx, number_disabled), ts) \<Rightarrow>
                    Inr \<lparr>merged_layer = set_metadata_mnl (seed\<lparr>techniques := ts\<rparr>) layers_to_filename mx,
                         max_score = mx,
                         number_of_techniques_disabled = number_disabled\<rparr>))"

definition merge_navigator_layers :: "(string \<times> Layer option) list \<Rightarrow> failure + merge_output" where
  "merge_navigator_layers files = merge_mnl (import_mnl files)"

section \<open>The scripts on initialized layers\<close>

text \<open>
  After the initialization loop no score, comment or enabled flag is \<^verbatim>\<open>None\<close>. On such
  techniques the merge loop raises nothing, and what it computes is a fold of
  \<open>merge_val\<close>, the value of one turn of the inner loop.
\<close>

definition normalized :: "Technique \<Rightarrow> bool" where
  "normalized t = (score t \<noteq> None \<and> comment t \<noteq> None \<and> enabled t \<noteq> None)"

definition reconcile_val :: "Technique \<Rightarrow> Technique \<Rightarrow> Technique" where
  "reconcile_val m t = (case reconcile m t of Inr m' \<Rightarrow> m' | Inl e \<Rightarrow> m)"

definition merge_val :: "Technique list \<Rightarrow> Technique \<Rightarrow> Technique list" where
  "merge_val merged t = (case merge_technique merged t of Inr merged' \<Rightarrow> merged' | Inl e \<Rightarrow> merged)"


definition post_val_ml :: "Technique \<Rightarrow> Technique" where
  "post_val_ml t =
     (let t1 = t\<lparr>showSubtechniques := Some False\<rparr>
      in if is_true (enabled t1) then strip_comment t1 else t1)"

definition post_val_mnl :: "Technique \<Rightarrow> Technique" where
  "post_val_mnl t =
     (let t1 = t\<lparr>showSubtechniques := Some False, color := Some []\<rparr>
      in if is_true (enabled t1) then strip_comment t1 else t1)"

definition enabled_scores :: "Technique list \<Rightarrow> int list" where
  "enabled_scores ts = List.map_filter (\<lambda>t. if is_true (enabled t) then score t else None) ts"

definition count_disabled :: "Technique list \<Rightarrow> nat" where
  "count_disabled ts = length (filter (\<lambda>t. \<not> is_true (enabled t)) ts)"

definition merged_val :: "Layer list \<Rightarrow> Technique list" where
  "merged_val ls =
     foldl merge_val (techniques (last (init_layers ls)))
       (concat (map techniques (butlast (init_layers ls))))"

definition example_technique :: "string \<Rightarrow> int \<Rightarrow> string \<Rightarrow> bool \<Rightarrow> Technique" where
  "example_technique tid s c e =
     \<lparr>techniqueID = tid, tacticName = None, score = Some s, comment = Some c, enabled = Some e,
      showSubtechniques = None, color = None\<rparr>"

definition example_layer :: "string \<Rightarrow> Technique list \<Rightarrow> Layer" where
  "example_layer n ts =
     \<lparr>name = n, description = Some [], techniques = ts, hideDisabled = None,
      expandSubtechniques = None, selectTechniquesAcrossTactics = None, layout = None,
      sorting = None,
      gradient = \<lparr>colors = [''#ff6666ff'', ''#ffe766ff'', ''#8ec843ff''], minValue = 0, maxValue = 100\<rparr>,
      legendItems = []\<rparr>"

definition scenario_doc1 :: Layer where
  "scenario_doc1 =
     example_layer ''doc1'' [example_technique ''T1'' 5 [] True, example_technique ''T2'' 2 [] True]"

definition scenario_doc2 :: Layer where
  "scenario_doc2 =
     example_layer ''doc2'' [example_technique ''T1'' 3 [] False, example_technique ''T3'' 1 [] True]"

definition comment_doc :: "string \<Rightarrow> string \<Rightarrow> Layer" where
  "comment_doc n c = example_layer n [example_technique ''T1'' 1 c True]"

definition unscored_doc :: Layer where
  "unscored_doc = example_layer ''L'' [example_technique ''T1001'' 0 [] True]"

definition ml_techniques :: "Layer list \<Rightarrow> Technique list" where
  "ml_techniques ls = (case merge_ml ls [] of Inr (Some out) \<Rightarrow> techniques (merged_layer out) | _ \<Rightarrow> [])"

definition mnl_techniques :: "(Layer \<times> string) list \<Rightarrow> Technique list" where
  "mnl_techniques lfs = (case merge_mnl lfs of Inr out \<Rightarrow> techniques (merged_layer out) | _ \<Rightarrow> [])"

definition unscored_t1_doc :: Layer where
  "unscored_t1_doc = example_layer ''Z'' [example_technique ''T1'' 0 [] True]"


definition padded_doc :: Layer where
  "padded_doc = example_layer ''L'' [example_technique ''T1'' 1 '' x'' True]"

definition with_id :: "string \<Rightarrow> Technique list \<Rightarrow> Technique list" where
  "with_id T M = filter (\<lambda>x. techniqueID x = T) M"

text \<open>
  The same two layers as \<^verbatim>\<open>merge_layers.py\<close> gets them, with the paths that \<^verbatim>\<open>glob\<close>
  returns for the folder \<^verbatim>\<open>layers\<close>, and as \<^verbatim>\<open>merge_navigator_layers.py\<close> gets them, with
  the file names that \<^verbatim>\<open>os.listdir\<close> returns; and a layer without description.
\<close>

definition scenario_paths :: "(string \<times> Layer option) list" where
  "scenario_paths =
     [(''layers/G0001.json'', Some scenario_doc1), (''layers/G0002.json'', Some scenario_doc2)]"

definition scenario_files :: "(string \<times> Layer option) list" where
  "scenario_files = [(''G0001.json'', Some scenario_doc1), (''G0002.json'', Some scenario_doc2)]"

definition undescribed_doc :: Layer where
  "undescribed_doc = scenario_doc1\<lparr>description := None\<rparr>"

text \<open>
  The short identifier in the words of the specification: an uppercase letter followed by
  exactly four digits. It is used to state what the two name searches of the scripts
  return; \<open>named_layer\<close> is a layer with a given name and description.
\<close>

fun is_short_id :: "string \<Rightarrow> bool" where
  "is_short_id [a, b, c, d, e] = (is_upper a \<and> is_digit b \<and> is_digit c \<and> is_digit d \<and> is_digit e)"
| "is_short_id _ = False"

definition named_layer :: "string \<Rightarrow> string option \<Rightarrow> Layer" where
  "named_layer n d = (example_layer n [])\<lparr>description := d\<rparr>"

section \<open>Initialization and the merge loop\<close>

lemma init_technique_normalized: "normalized (init_technique t)"
  by (auto simp add: init_technique_def normalized_def Let_def)

lemma init_technique_id [simp]: "techniqueID (init_technique t) = techniqueID t"
  by (simp add: init_technique_def Let_def)

lemma init_technique_fixed: "normalized t \<Longrightarrow> init_technique t = t"
  by (auto simp add: init_technique_def normalized_def Let_def)

lemma reconcile_normalized:
  assumes "normalized m"
  shows "\<exists>m'. reconcile m t = Inr m' \<and> normalized m' \<and> techniqueID m' = techniqueID m"
  using assms
  by (auto simp add: reconcile_def add_score_def add_comment_def disable_def normalized_def
      split: option.splits)

lemma reconcile_val_eq: "normalized m \<Longrightarrow> reconcile m t = Inr (reconcile_val m t)"
  using reconcile_normalized [of m t] by (auto simp add: reconcile_val_def)

lemma reconcile_val_normalized: "normalized m \<Longrightarrow> normalized (reconcile_val m t)"
  using reconcile_normalized [of m t] by (auto simp add: reconcile_val_def)

lemma reconcile_val_id: "normalized m \<Longrightarrow> techniqueID (reconcile_val m t) = techniqueID m"
  using reconcile_normalized [of m t] by (auto simp add: reconcile_val_def)

lemma find_Some_mem: "find_technique_in_layer T M = Some m \<Longrightarrow> m \<in> set M \<and> techniqueID m = T"
  by (induction M) (auto split: if_splits)

lemma find_None_iff: "find_technique_in_layer T M = None \<longleftrightarrow> T \<notin> techniqueID ` set M"
  by (induction M) auto

lemma update_set: "m' \<in> set (update_technique T t' M) \<Longrightarrow> m' = t' \<or> m' \<in> set M"
  by (induction M) (auto split: if_splits)

lemma update_ids: "techniqueID t' = T \<Longrightarrow> map techniqueID (update_technique T t' M) = map techniqueID M"
  by (induction M) auto

lemma find_update:
  "techniqueID t' = T' \<Longrightarrow> find_technique_in_layer T (update_technique T' t' M) =
     (if T = T' \<and> find_technique_in_layer T M \<noteq> None then Some t' else find_technique_in_layer T M)"
  by (induction M) auto

lemma find_append:
  "find_technique_in_layer T (M @ N) =
     (case find_technique_in_layer T M of Some m \<Rightarrow> Some m | None \<Rightarrow> find_technique_in_layer T N)"
  by (induction M) auto

lemma merge_technique_eq:
  assumes "\<forall>m\<in>set M. normalized m"
  shows "merge_technique M t = Inr (merge_val M t)"
proof (cases "find_technique_in_layer (techniqueID t) M")
  case None
  then show ?thesis by (simp add: merge_technique_def merge_val_def)
next
  case (Some m)
  then have "normalized m" using assms find_Some_mem by blast
  then show ?thesis using Some reconcile_val_eq [of m t]
    by (simp add: merge_technique_def merge_val_def)
qed

lemma merge_val_cases:
  assumes "\<forall>m\<in>set M. normalized m"
  shows "merge_val M t =
     (case find_technique_in_layer (techniqueID t) M of
        None \<Rightarrow> M @ [t]
      | Some m \<Rightarrow> update_technique (techniqueID t) (reconcile_val m t) M)"
proof (cases "find_technique_in_layer (techniqueID t) M")
  case None
  then show ?thesis by (simp add: merge_technique_def merge_val_def)
next
  case (Some m)
  then have "normalized m" using assms find_Some_mem by blast
  then show ?thesis using Some reconcile_val_eq [of m t]
    by (simp add: merge_technique_def merge_val_def)
qed

lemma merge_val_normalized:
  assumes "\<forall>m\<in>set M. normalized m" "normalized t"
  shows "\<forall>m\<in>set (merge_val M t). normalized m"
proof (cases "find_technique_in_layer (techniqueID t) M")
  case None
  then show ?thesis using assms by (simp add: merge_val_cases)
next
  case (Some m)
  then have "normalized m" using assms find_Some_mem by blast
  then have "normalized (reconcile_val m t)" by (rule reconcile_val_normalized)
  then show ?thesis using assms Some by (auto simp add: merge_val_cases dest: update_set)
qed

lemma merge_val_ids:
  assumes "\<forall>m\<in>set M. normalized m"
  shows "map techniqueID (merge_val M t) =
     (if techniqueID t \<in> techniqueID ` set M then map techniqueID M
      else map techniqueID M @ [techniqueID t])"
proof (cases "find_technique_in_layer (techniqueID t) M")
  case None
  moreover have "techniqueID t \<notin> techniqueID ` set M" using None find_None_iff by blast
  ultimately show ?thesis using assms by (simp add: merge_val_cases)
next
  case (Some m)
  then have n: "normalized m" and i: "techniqueID m = techniqueID t"
    using assms find_Some_mem by blast+
  have "techniqueID t \<in> techniqueID ` set M" using Some find_None_iff [of "techniqueID t" M] by simp
  then show ?thesis using assms Some update_ids reconcile_val_id [OF n, of t] i
    by (simp add: merge_val_cases)
qed

lemma find_merge_val:
  assumes "\<forall>m\<in>set M. normalized m"
  shows "find_technique_in_layer T (merge_val M t) =
     (if techniqueID t = T then
        (case find_technique_in_layer T M of None \<Rightarrow> Some t | Some m \<Rightarrow> Some (reconcile_val m t))
      else find_technique_in_layer T M)"
proof (cases "find_technique_in_layer (techniqueID t) M")
  case None
  then show ?thesis using assms by (auto simp add: merge_val_cases find_append split: option.splits)
next
  case (Some m)
  then have n: "normalized m" and i: "techniqueID m = techniqueID t"
    using assms find_Some_mem by blast+
  show ?thesis using assms Some reconcile_val_id [OF n, of t] i
    by (auto simp add: merge_val_cases find_update)
qed

lemma merge_techniques_eq:
  "\<forall>m\<in>set M. normalized m \<Longrightarrow> \<forall>t\<in>set ts. normalized t \<Longrightarrow>
   merge_techniques M ts = Inr (foldl merge_val M ts) \<and> (\<forall>m\<in>set (foldl merge_val M ts). normalized m)"
proof (induction ts arbitrary: M)
  case Nil
  then show ?case by simp
next
  case (Cons t ts)
  have t: "normalized t" and ts: "\<forall>t\<in>set ts. normalized t" using Cons.prems(2) by simp_all
  have n: "\<forall>m\<in>set (merge_val M t). normalized m"
    using Cons.prems(1) t by (rule merge_val_normalized)
  have e: "merge_technique M t = Inr (merge_val M t)"
    using Cons.prems(1) by (rule merge_technique_eq)
  have "merge_techniques (merge_val M t) ts = Inr (foldl merge_val (merge_val M t) ts)
        \<and> (\<forall>m\<in>set (foldl merge_val (merge_val M t) ts). normalized m)"
    using n ts by (rule Cons.IH)
  then show ?case by (simp add: e)
qed

lemma merge_loop_eq:
  "\<forall>m\<in>set M. normalized m \<Longrightarrow> \<forall>l\<in>set ls. \<forall>t\<in>set (techniques l). normalized t \<Longrightarrow>
   merge_loop M ls = Inr (foldl merge_val M (concat (map techniques ls)))
   \<and> (\<forall>m\<in>set (foldl merge_val M (concat (map techniques ls))). normalized m)"
proof (induction ls arbitrary: M)
  case Nil
  then show ?case by simp
next
  case (Cons l ls)
  have l: "\<forall>t\<in>set (techniques l). normalized t"
    and ls: "\<forall>l\<in>set ls. \<forall>t\<in>set (techniques l). normalized t"
    using Cons.prems(2) by simp_all
  have ab: "merge_techniques M (techniques l) = Inr (foldl merge_val M (techniques l))
     \<and> (\<forall>m\<in>set (foldl merge_val M (techniques l)). normalized m)"
    using Cons.prems(1) l by (rule merge_techniques_eq)
  then have b: "\<forall>m\<in>set (foldl merge_val M (techniques l)). normalized m" by blast
  have "merge_loop (foldl merge_val M (techniques l)) ls =
          Inr (foldl merge_val (foldl merge_val M (techniques l)) (concat (map techniques ls)))
        \<and> (\<forall>m\<in>set (foldl merge_val (foldl merge_val M (techniques l)) (concat (map techniques ls))).
             normalized m)"
    using b ls by (rule Cons.IH)
  then show ?case using ab by simp
qed

lemma strip_comment_fields [simp]:
  "techniqueID (strip_comment t) = techniqueID t"
  "score (strip_comment t) = score t"
  "enabled (strip_comment t) = enabled t"
  "tacticName (strip_comment t) = tacticName t"
  "color (strip_comment t) = color t"
  "showSubtechniques (strip_comment t) = showSubtechniques t"
  by (simp_all add: strip_comment_def split: option.splits)

lemma post_val_ml_fields [simp]:
  "techniqueID (post_val_ml t) = techniqueID t"
  "score (post_val_ml t) = score t"
  "enabled (post_val_ml t) = enabled t"
  "showSubtechniques (post_val_ml t) = Some False"
  by (simp_all add: post_val_ml_def Let_def)

lemma post_val_mnl_eq: "post_val_mnl t = (post_val_ml t)\<lparr>color := Some []\<rparr>"
  by (simp add: post_val_mnl_def post_val_ml_def Let_def strip_comment_def split: option.splits)

lemma post_val_mnl_fields [simp]:
  "techniqueID (post_val_mnl t) = techniqueID t"
  "score (post_val_mnl t) = score t"
  "enabled (post_val_mnl t) = enabled t"
  "showSubtechniques (post_val_mnl t) = Some False"
  by (simp_all add: post_val_mnl_eq)

lemma post_technique_ml_eq:
  assumes "normalized t"
  shows "post_technique_ml (mx, nd) t =
     Inr ((if is_true (enabled t) then max mx (the (score t)) else mx,
           if is_true (enabled t) then nd else nd + 1), post_val_ml t)"
  using assms
  by (auto simp add: post_technique_ml_def post_body_def post_val_ml_def normalized_def max_def)

lemma post_technique_mnl_eq:
  assumes "normalized t"
  shows "post_technique_mnl (mx, nd) t =
     Inr ((if is_true (enabled t) then max mx (the (score t)) else mx,
           if is_true (enabled t) then nd else nd + 1), post_val_mnl t)"
  using assms
  by (auto simp add: post_technique_mnl_def post_body_def post_val_mnl_def normalized_def max_def)

lemma enabled_scores_Cons:
  "normalized t \<Longrightarrow> enabled_scores (t # ts) =
     (if is_true (enabled t) then the (score t) # enabled_scores ts else enabled_scores ts)"
  by (auto simp add: enabled_scores_def normalized_def)

lemma count_disabled_Cons:
  "count_disabled (t # ts) = (if is_true (enabled t) then count_disabled ts else Suc (count_disabled ts))"
  by (simp add: count_disabled_def)

lemma post_merge_ml_eq:
  "\<forall>t\<in>set M. normalized t \<Longrightarrow>
   post_merge_ml (mx, nd) M = Inr ((foldl max mx (enabled_scores M), nd + count_disabled M), map post_val_ml M)"
proof (induction M arbitrary: mx nd)
  case Nil
  then show ?case by (simp add: enabled_scores_def count_disabled_def)
next
  case (Cons t M)
  have t: "normalized t" and M: "\<forall>t\<in>set M. normalized t" using Cons.prems by simp_all
  show ?case
    by (simp add: post_technique_ml_eq [OF t] Cons.IH [OF M] enabled_scores_Cons [OF t]
        count_disabled_Cons)
qed

lemma post_merge_mnl_eq:
  "\<forall>t\<in>set M. normalized t \<Longrightarrow>
   post_merge_mnl (mx, nd) M = Inr ((foldl max mx (enabled_scores M), nd + count_disabled M), map post_val_mnl M)"
proof (induction M arbitrary: mx nd)
  case Nil
  then show ?case by (simp add: enabled_scores_def count_disabled_def)
next
  case (Cons t M)
  have t: "normalized t" and M: "\<forall>t\<in>set M. normalized t" using Cons.prems by simp_all
  show ?case
    by (simp add: post_technique_mnl_eq [OF t] Cons.IH [OF M] enabled_scores_Cons [OF t]
        count_disabled_Cons)
qed

lemma init_layers_normalized:
  "l \<in> set (init_layers ls) \<Longrightarrow> t \<in> set (techniques l) \<Longrightarrow> normalized t"
  by (auto simp add: init_layers_def init_layer_def init_technique_normalized)

lemma merged_val_loop:
  assumes "ls \<noteq> []"
  shows "merge_loop (techniques (last (init_layers ls))) (butlast (init_layers ls)) = Inr (merged_val ls)
         \<and> (\<forall>m\<in>set (merged_val ls). normalized m)"
proof -
  have ne: "init_layers ls \<noteq> []" using assms by (simp add: init_layers_def)
  have a: "\<forall>m\<in>set (techniques (last (init_layers ls))). normalized m"
  proof
    fix m assume "m \<in> set (techniques (last (init_layers ls)))"
    with last_in_set [OF ne] show "normalized m" by (rule init_layers_normalized)
  qed
  have b: "\<forall>l\<in>set (butlast (init_layers ls)). \<forall>t\<in>set (techniques l). normalized t"
  proof (intro ballI)
    fix l t assume "l \<in> set (butlast (init_layers ls))" and t: "t \<in> set (techniques l)"
    then have "l \<in> set (init_layers ls)" by (simp add: in_set_butlastD)
    then show "normalized t" using t by (rule init_layers_normalized)
  qed
  show ?thesis unfolding merged_val_def using a b by (rule merge_loop_eq)
qed

lemma merge_ml_eq:
  assumes "ls \<noteq> []"
  shows "merge_ml ls ns =
     Inr (Some \<lparr>merged_layer =
                  set_metadata_ml (last (init_layers ls)\<lparr>techniques := map post_val_ml (merged_val ls)\<rparr>) ns
                    (foldl max 1 (enabled_scores (merged_val ls))),
                max_score = foldl max 1 (enabled_scores (merged_val ls)),
                number_of_techniques_disabled = count_disabled (merged_val ls)\<rparr>)"
proof -
  have l: "merge_loop (techniques (last (init_layers ls))) (butlast (init_layers ls)) = Inr (merged_val ls)"
    and n: "\<forall>m\<in>set (merged_val ls). normalized m"
    using merged_val_loop [OF assms] by simp_all
  show ?thesis using assms by (simp add: merge_ml_def Let_def l post_merge_ml_eq [OF n])
qed

lemma merge_mnl_eq:
  assumes "lfs \<noteq> []"
  shows "merge_mnl lfs =
     Inr \<lparr>merged_layer =
            set_metadata_mnl (last (init_layers (map fst lfs))
                                \<lparr>techniques := map post_val_mnl (merged_val (map fst lfs))\<rparr>) lfs
              (foldl max 0 (enabled_scores (merged_val (map fst lfs)))),
          max_score = foldl max 0 (enabled_scores (merged_val (map fst lfs))),
          number_of_techniques_disabled = count_disabled (merged_val (map fst lfs))\<rparr>"
proof -
  have ne: "map fst lfs \<noteq> []" using assms by simp
  have l: "merge_loop (techniques (last (init_layers (map fst lfs)))) (butlast (init_layers (map fst lfs)))
           = Inr (merged_val (map fst lfs))"
    and n: "\<forall>m\<in>set (merged_val (map fst lfs)). normalized m"
    using merged_val_loop [OF ne] by simp_all
  show ?thesis using assms by (simp add: merge_mnl_def Let_def l post_merge_mnl_eq [OF n])
qed

lemma set_display_fields [simp]:
  "techniques (set_display l mx) = techniques l"
  "gradient (set_display l mx) = (gradient l)\<lparr>colors := [''#ffffff00'', ''#ff6666ff''], minValue := 0, maxValue := mx\<rparr>"
  "legendItems (set_display l mx) =
     [\<lparr>label = most_frequent, legend_color = ''#ff6666ff''\<rparr>,
      \<lparr>label = least_frequent, legend_color = ''#ffffff00''\<rparr>]"
  by (simp_all add: set_display_def Let_def)

lemma set_metadata_techniques [simp]:
  "techniques (set_metadata_ml l ns mx) = techniques l"
  "techniques (set_metadata_mnl l lfs mx) = techniques l"
  by (simp_all add: set_metadata_ml_def set_metadata_mnl_def)

lemma foldl_max_Max: "foldl max (mx::int) xs = Max (insert mx (set xs))"
proof (induction xs arbitrary: mx)
  case Nil
  then show ?case by simp
next
  case (Cons x xs)
  have "Max (insert (max mx x) (set xs)) = Max (insert mx (insert x (set xs)))"
    by (cases "set xs = {}") (simp_all add: max.assoc)
  then show ?case using Cons.IH [of "max mx x"] by simp
qed

lemma is_true_iff: "is_true b = (b = Some True)"
  by (cases b) simp_all

lemma set_enabled_scores:
  "set (enabled_scores M) = {s. \<exists>t\<in>set M. enabled t = Some True \<and> score t = Some s}"
  by (induction M) (auto simp add: enabled_scores_def is_true_iff split: option.splits)

lemma enabled_scores_post_ml: "enabled_scores (map post_val_ml M) = enabled_scores M"
  by (induction M) (auto simp add: enabled_scores_def split: option.splits)

lemma enabled_scores_post_mnl: "enabled_scores (map post_val_mnl M) = enabled_scores M"
  by (induction M) (auto simp add: enabled_scores_def split: option.splits)

text \<open>
  C7. The normalizer replaces an absent score by 0, an absent comment by the empty string
  and an absent enabled flag by true, and changes no other field of a technique nor any
  other field of the layer; applying it twice gives what applying it once gives, for a
  technique, a layer and a list of layers.
\<close>

theorem normalizer_defaults_idempotent:
  "init_technique t =
     t\<lparr>score := Some (case score t of None \<Rightarrow> 0 | Some s \<Rightarrow> s),
       comment := Some (case comment t of None \<Rightarrow> [] | Some c \<Rightarrow> c),
       enabled := Some (case enabled t of None \<Rightarrow> True | Some b \<Rightarrow> b)\<rparr>
   \<and> init_technique (init_technique t) = init_technique t
   \<and> init_layer l = l\<lparr>techniques := map init_technique (techniques l)\<rparr>
   \<and> init_layer (init_layer l) = init_layer l
   \<and> init_layers (init_layers ls) = init_layers ls"
proof -
  have a: "init_technique t =
     t\<lparr>score := Some (case score t of None \<Rightarrow> 0 | Some s \<Rightarrow> s),
       comment := Some (case comment t of None \<Rightarrow> [] | Some c \<Rightarrow> c),
       enabled := Some (case enabled t of None \<Rightarrow> True | Some b \<Rightarrow> b)\<rparr>"
    by (cases "score t"; cases "comment t"; cases "enabled t")
       (simp_all add: init_technique_def Let_def)
  have b: "\<And>t. init_technique (init_technique t) = init_technique t"
    by (rule init_technique_fixed) (rule init_technique_normalized)
  have c: "\<And>l. init_layer (init_layer l) = init_layer l"
    by (simp add: init_layer_def b)
  have d: "init_layers (init_layers ls) = init_layers ls"
    by (simp add: init_layers_def c)
  show ?thesis by (intro conjI) (rule a, rule b, simp add: init_layer_def, rule c, rule d)
qed

theorem normalizer_defaults_idempotent_witness:
  "init_technique \<lparr>techniqueID = ''T1001'', tacticName = None, score = None, comment = None,
                   enabled = None, showSubtechniques = Some True, color = Some ''#ff0000''\<rparr>
   = \<lparr>techniqueID = ''T1001'', tacticName = None, score = Some 0, comment = Some [],
      enabled = Some True, showSubtechniques = Some True, color = Some ''#ff0000''\<rparr>"
  using normalizer_defaults_idempotent
    [of "\<lparr>techniqueID = ''T1001'', tacticName = None, score = None, comment = None,
          enabled = None, showSubtechniques = Some True, color = Some ''#ff0000''\<rparr>"]
  by simp

lemma foldl_merge_val_normalized:
  "\<forall>m\<in>set M. normalized m \<Longrightarrow> \<forall>t\<in>set ts. normalized t \<Longrightarrow>
   \<forall>m\<in>set (foldl merge_val M ts). normalized m"
  using merge_techniques_eq [of M ts] by blast

lemma foldl_merge_val_ids:
  "\<forall>m\<in>set M. normalized m \<Longrightarrow> \<forall>t\<in>set ts. normalized t \<Longrightarrow>
   set (map techniqueID (foldl merge_val M ts)) = techniqueID ` set M \<union> techniqueID ` set ts
   \<and> (distinct (map techniqueID M) \<longrightarrow> distinct (map techniqueID (foldl merge_val M ts)))"
proof (induction ts arbitrary: M)
  case Nil
  then show ?case by simp
next
  case (Cons t ts)
  have t: "normalized t" and ts: "\<forall>t\<in>set ts. normalized t" using Cons.prems(2) by simp_all
  have n: "\<forall>m\<in>set (merge_val M t). normalized m"
    using Cons.prems(1) t by (rule merge_val_normalized)
  have ids: "map techniqueID (merge_val M t) =
     (if techniqueID t \<in> techniqueID ` set M then map techniqueID M
      else map techniqueID M @ [techniqueID t])"
    using Cons.prems(1) by (rule merge_val_ids)
  have s: "techniqueID ` set (merge_val M t) = insert (techniqueID t) (techniqueID ` set M)"
  proof -
    have "set (map techniqueID (merge_val M t)) = insert (techniqueID t) (techniqueID ` set M)"
      unfolding ids by auto
    then show ?thesis by simp
  qed
  have d: "distinct (map techniqueID M) \<longrightarrow> distinct (map techniqueID (merge_val M t))"
    unfolding ids by auto
  have ih: "set (map techniqueID (foldl merge_val (merge_val M t) ts)) =
              techniqueID ` set (merge_val M t) \<union> techniqueID ` set ts
            \<and> (distinct (map techniqueID (merge_val M t)) \<longrightarrow>
                 distinct (map techniqueID (foldl merge_val (merge_val M t) ts)))"
    using n ts by (rule Cons.IH)
  show ?case using ih d unfolding s by auto
qed

lemma init_layers_last:
  "ls \<noteq> [] \<Longrightarrow> techniques (last (init_layers ls)) = map init_technique (techniques (last ls))"
  by (simp add: init_layers_def last_map init_layer_def)

lemma init_layers_butlast:
  "concat (map techniques (butlast (init_layers ls))) =
     map init_technique (concat (map techniques (butlast ls)))"
  by (simp add: init_layers_def map_butlast [symmetric] init_layer_def map_concat comp_def)

lemma merged_val_raw:
  "ls \<noteq> [] \<Longrightarrow> merged_val ls =
     foldl merge_val (map init_technique (techniques (last ls)))
       (map init_technique (concat (map techniques (butlast ls))))"
  by (simp add: merged_val_def init_layers_last init_layers_butlast)

lemma all_ids_split:
  assumes "ls \<noteq> []"
  shows "(\<Union>l\<in>set ls. techniqueID ` set (techniques l)) =
     techniqueID ` set (techniques (last ls)) \<union> techniqueID ` set (concat (map techniques (butlast ls)))"
proof -
  have "set ls = insert (last ls) (set (butlast ls))"
    using assms by (metis append_butlast_last_id list.simps(15) rotate1.simps(2) set_rotate1)
  then show ?thesis by auto
qed

lemma merged_val_ids:
  assumes "ls \<noteq> []"
  shows "set (map techniqueID (merged_val ls)) = (\<Union>l\<in>set ls. techniqueID ` set (techniques l))"
    and "distinct (map techniqueID (techniques (last ls))) \<Longrightarrow> distinct (map techniqueID (merged_val ls))"
proof -
  let ?S = "map init_technique (techniques (last ls))"
  let ?R = "map init_technique (concat (map techniques (butlast ls)))"
  have a: "\<forall>m\<in>set ?S. normalized m" by (simp add: init_technique_normalized)
  have b: "\<forall>m\<in>set ?R. normalized m" by (simp add: init_technique_normalized)
  have i: "map techniqueID ?S = map techniqueID (techniques (last ls))" by simp
  have c: "set (map techniqueID (foldl merge_val ?S ?R)) = techniqueID ` set ?S \<union> techniqueID ` set ?R
     \<and> (distinct (map techniqueID ?S) \<longrightarrow> distinct (map techniqueID (foldl merge_val ?S ?R)))"
    using a b by (rule foldl_merge_val_ids)
  have e: "techniqueID ` set ?S = techniqueID ` set (techniques (last ls))"
    by (simp add: image_image)
  have f: "techniqueID ` set ?R = techniqueID ` set (concat (map techniques (butlast ls)))"
    by (simp only: set_map image_image init_technique_id)
  show "set (map techniqueID (merged_val ls)) = (\<Union>l\<in>set ls. techniqueID ` set (techniques l))"
    using c unfolding merged_val_raw [OF assms] all_ids_split [OF assms] e f by blast
  show "distinct (map techniqueID (techniques (last ls))) \<Longrightarrow> distinct (map techniqueID (merged_val ls))"
    using c unfolding merged_val_raw [OF assms] i by blast
qed

lemma map_id_post_ml: "map techniqueID (map post_val_ml M) = map techniqueID M"
  by (induction M) simp_all

lemma map_id_post_mnl: "map techniqueID (map post_val_mnl M) = map techniqueID M"
  by (induction M) simp_all

lemma merge_ml_techniques:
  "ls \<noteq> [] \<Longrightarrow> \<exists>out. merge_ml ls ns = Inr (Some out)
     \<and> techniques (merged_layer out) = map post_val_ml (merged_val ls)
     \<and> max_score out = foldl max 1 (enabled_scores (merged_val ls))
     \<and> number_of_techniques_disabled out = count_disabled (merged_val ls)
     \<and> gradient (merged_layer out) =
          (gradient (last (init_layers ls)))\<lparr>colors := [''#ffffff00'', ''#ff6666ff''], minValue := 0,
             maxValue := foldl max 1 (enabled_scores (merged_val ls))\<rparr>"
  by (subst merge_ml_eq, assumption, intro exI conjI, rule refl)
     (simp_all add: set_metadata_ml_def)

lemma merge_mnl_techniques:
  "lfs \<noteq> [] \<Longrightarrow> \<exists>out. merge_mnl lfs = Inr out
     \<and> techniques (merged_layer out) = map post_val_mnl (merged_val (map fst lfs))
     \<and> max_score out = foldl max 0 (enabled_scores (merged_val (map fst lfs)))
     \<and> number_of_techniques_disabled out = count_disabled (merged_val (map fst lfs))
     \<and> gradient (merged_layer out) =
          (gradient (last (init_layers (map fst lfs))))\<lparr>colors := [''#ffffff00'', ''#ff6666ff''],
             minValue := 0, maxValue := foldl max 0 (enabled_scores (merged_val (map fst lfs)))\<rparr>"
  by (subst merge_mnl_eq, assumption, intro exI conjI, rule refl)
     (simp_all add: set_metadata_mnl_def)

text \<open>
  C8. When the technique identifiers of every input layer are distinct within the layer,
  both scripts return a merged layer whose techniques have distinct identifiers, and these
  identifiers are exactly the identifiers that occur in some input layer.
\<close>

theorem one_record_per_identifier:
  assumes "lfs \<noteq> []"
    and "\<forall>l\<in>set (map fst lfs). distinct (map techniqueID (techniques l))"
  shows "\<exists>o1 o2. merge_ml (map fst lfs) ns = Inr (Some o1) \<and> merge_mnl lfs = Inr o2
     \<and> distinct (map techniqueID (techniques (merged_layer o1)))
     \<and> set (map techniqueID (techniques (merged_layer o1))) =
         (\<Union>l\<in>set (map fst lfs). techniqueID ` set (techniques l))
     \<and> distinct (map techniqueID (techniques (merged_layer o2)))
     \<and> set (map techniqueID (techniques (merged_layer o2))) =
         (\<Union>l\<in>set (map fst lfs). techniqueID ` set (techniques l))"
proof -
  let ?ls = "map fst lfs"
  have ne: "?ls \<noteq> []" using assms(1) by simp
  have "last ?ls \<in> set ?ls" using ne by (rule last_in_set)
  then have "distinct (map techniqueID (techniques (last ?ls)))" using assms(2) by blast
  then have d: "distinct (map techniqueID (merged_val ?ls))" by (rule merged_val_ids(2) [OF ne])
  have s: "set (map techniqueID (merged_val ?ls)) = (\<Union>l\<in>set ?ls. techniqueID ` set (techniques l))"
    by (rule merged_val_ids(1) [OF ne])
  obtain o1 where o1: "merge_ml ?ls ns = Inr (Some o1)"
    and t1: "techniques (merged_layer o1) = map post_val_ml (merged_val ?ls)"
    using merge_ml_techniques [OF ne, of ns] by blast
  obtain o2 where o2: "merge_mnl lfs = Inr o2"
    and t2: "techniques (merged_layer o2) = map post_val_mnl (merged_val ?ls)"
    using merge_mnl_techniques [OF assms(1)] by blast
  have i1: "map techniqueID (techniques (merged_layer o1)) = map techniqueID (merged_val ?ls)"
    unfolding t1 by (rule map_id_post_ml)
  have i2: "map techniqueID (techniques (merged_layer o2)) = map techniqueID (merged_val ?ls)"
    unfolding t2 by (rule map_id_post_mnl)
  have d1: "distinct (map techniqueID (techniques (merged_layer o1)))" using d by (simp only: i1)
  have d2: "distinct (map techniqueID (techniques (merged_layer o2)))" using d by (simp only: i2)
  have s1: "set (map techniqueID (techniques (merged_layer o1))) =
      (\<Union>l\<in>set ?ls. techniqueID ` set (techniques l))" using s by (simp only: i1)
  have s2: "set (map techniqueID (techniques (merged_layer o2))) =
      (\<Union>l\<in>set ?ls. techniqueID ` set (techniques l))" using s by (simp only: i2)
  show ?thesis using o1 o2 d1 d2 s1 s2 by (intro exI conjI)
qed

theorem one_record_per_identifier_witness:
  "[(example_layer ''A'' [example_technique ''T1'' 5 [] True, example_technique ''T2'' 2 [] True], ''a''),
    (example_layer ''B'' [example_technique ''T1'' 3 [] False, example_technique ''T3'' 1 [] True], ''b'')] \<noteq> []
   \<and> (\<exists>o1 o2.
        merge_ml [example_layer ''A'' [example_technique ''T1'' 5 [] True, example_technique ''T2'' 2 [] True],
                  example_layer ''B'' [example_technique ''T1'' 3 [] False, example_technique ''T3'' 1 [] True]] []
          = Inr (Some o1)
        \<and> merge_mnl
            [(example_layer ''A'' [example_technique ''T1'' 5 [] True, example_technique ''T2'' 2 [] True], ''a''),
             (example_layer ''B'' [example_technique ''T1'' 3 [] False, example_technique ''T3'' 1 [] True], ''b'')]
          = Inr o2
        \<and> distinct (map techniqueID (techniques (merged_layer o1)))
        \<and> set (map techniqueID (techniques (merged_layer o1))) = {''T1'', ''T2'', ''T3''}
        \<and> distinct (map techniqueID (techniques (merged_layer o2)))
        \<and> set (map techniqueID (techniques (merged_layer o2))) = {''T1'', ''T2'', ''T3''})"
proof -
  let ?lfs = "[(example_layer ''A'' [example_technique ''T1'' 5 [] True, example_technique ''T2'' 2 [] True], ''a''),
    (example_layer ''B'' [example_technique ''T1'' 3 [] False, example_technique ''T3'' 1 [] True], ''b'')]"
  have h1: "?lfs \<noteq> []" by simp
  have h2: "\<forall>l\<in>set (map fst ?lfs). distinct (map techniqueID (techniques l))"
    by (simp add: example_layer_def example_technique_def)
  have u: "(\<Union>l\<in>set (map fst ?lfs). techniqueID ` set (techniques l)) = {''T1'', ''T2'', ''T3''}"
    by (auto simp add: example_layer_def example_technique_def)
  show ?thesis
    using one_record_per_identifier [OF h1 h2, of "[]"] unfolding u by simp
qed

lemma foldl_max_shift: "foldl max (max a b) xs = max (a::int) (foldl max b xs)"
proof (induction xs arbitrary: b)
  case Nil
  then show ?case by simp
next
  case (Cons x xs)
  have "max (max a b) x = max a (max b x)" by (simp add: max.assoc)
  then show ?case using Cons.IH [of "max b x"] by simp
qed

lemma scenario_merged_val:
  "merged_val [scenario_doc1, scenario_doc2] =
     [example_technique ''T1'' 8 [] False, example_technique ''T3'' 1 [] True,
      example_technique ''T2'' 2 [] True]"
  by (simp add: merged_val_def init_layers_def init_layer_def init_technique_def scenario_doc1_def
      scenario_doc2_def example_layer_def example_technique_def merge_val_def merge_technique_def
      reconcile_def add_score_def add_comment_def disable_def)

lemma scenario_enabled_scores:
  "enabled_scores [example_technique ''T1'' 8 [] False, example_technique ''T3'' 1 [] True,
      example_technique ''T2'' 2 [] True] = [1, 2]"
  by (simp add: enabled_scores_def example_technique_def)

lemma enabled_score_set:
  "{s. \<exists>t\<in>set (map post_val_ml M). enabled t = Some True \<and> score t = Some s} = set (enabled_scores M)"
  "{s. \<exists>t\<in>set (map post_val_mnl M). enabled t = Some True \<and> score t = Some s} = set (enabled_scores M)"
  using set_enabled_scores [of "map post_val_ml M"] set_enabled_scores [of "map post_val_mnl M"]
  by (simp_all only: enabled_scores_post_ml enabled_scores_post_mnl)

text \<open>
  C5. The maximum score a script reports, which is also the upper bound of the gradient,
  is the largest of the initial value (1 in \<^verbatim>\<open>merge_layers.py\<close>, 0 in
  \<^verbatim>\<open>merge_navigator_layers.py\<close>) and the scores of the techniques of the merged layer that
  are enabled: the score of a disabled technique does not enter it.
\<close>

theorem max_score_over_enabled:
  assumes "lfs \<noteq> []"
  shows "\<exists>o1 o2. merge_ml (map fst lfs) ns = Inr (Some o1) \<and> merge_mnl lfs = Inr o2
     \<and> max_score o1 =
         Max (insert 1 {s. \<exists>t\<in>set (techniques (merged_layer o1)). enabled t = Some True \<and> score t = Some s})
     \<and> maxValue (gradient (merged_layer o1)) = max_score o1
     \<and> max_score o2 =
         Max (insert 0 {s. \<exists>t\<in>set (techniques (merged_layer o2)). enabled t = Some True \<and> score t = Some s})
     \<and> maxValue (gradient (merged_layer o2)) = max_score o2"
proof -
  let ?ls = "map fst lfs"
  have ne: "?ls \<noteq> []" using assms by simp
  obtain o1 where o1: "merge_ml ?ls ns = Inr (Some o1)"
    and t1: "techniques (merged_layer o1) = map post_val_ml (merged_val ?ls)"
    and m1: "max_score o1 = foldl max 1 (enabled_scores (merged_val ?ls))"
    and g1: "gradient (merged_layer o1) =
          (gradient (last (init_layers ?ls)))\<lparr>colors := [''#ffffff00'', ''#ff6666ff''], minValue := 0,
             maxValue := foldl max 1 (enabled_scores (merged_val ?ls))\<rparr>"
    using merge_ml_techniques [OF ne, of ns] by blast
  obtain o2 where o2: "merge_mnl lfs = Inr o2"
    and t2: "techniques (merged_layer o2) = map post_val_mnl (merged_val ?ls)"
    and m2: "max_score o2 = foldl max 0 (enabled_scores (merged_val ?ls))"
    and g2: "gradient (merged_layer o2) =
          (gradient (last (init_layers ?ls)))\<lparr>colors := [''#ffffff00'', ''#ff6666ff''], minValue := 0,
             maxValue := foldl max 0 (enabled_scores (merged_val ?ls))\<rparr>"
    using merge_mnl_techniques [OF assms] by blast
  have a: "max_score o1 =
      Max (insert 1 {s. \<exists>t\<in>set (techniques (merged_layer o1)). enabled t = Some True \<and> score t = Some s})"
    unfolding t1 enabled_score_set m1 by (rule foldl_max_Max)
  have b: "max_score o2 =
      Max (insert 0 {s. \<exists>t\<in>set (techniques (merged_layer o2)). enabled t = Some True \<and> score t = Some s})"
    unfolding t2 enabled_score_set m2 by (rule foldl_max_Max)
  have c: "maxValue (gradient (merged_layer o1)) = max_score o1" by (simp add: g1 m1)
  have d: "maxValue (gradient (merged_layer o2)) = max_score o2" by (simp add: g2 m2)
  show ?thesis using o1 o2 a b c d by (intro exI conjI)
qed

theorem max_score_over_enabled_witness:
  "[(scenario_doc1, ''doc1''), (scenario_doc2, ''doc2'')] \<noteq> []
   \<and> (\<exists>o1 o2. merge_ml [scenario_doc1, scenario_doc2] [] = Inr (Some o1)
        \<and> merge_mnl [(scenario_doc1, ''doc1''), (scenario_doc2, ''doc2'')] = Inr o2
        \<and> map score (techniques (merged_layer o1)) = [Some 8, Some 1, Some 2]
        \<and> map enabled (techniques (merged_layer o1)) = [Some False, Some True, Some True]
        \<and> max_score o1 = 2 \<and> maxValue (gradient (merged_layer o1)) = 2
        \<and> max_score o2 = 2 \<and> maxValue (gradient (merged_layer o2)) = 2)"
proof -
  let ?lfs = "[(scenario_doc1, ''doc1''), (scenario_doc2, ''doc2'')]"
  have h: "?lfs \<noteq> []" by simp
  obtain o1 o2 where o1: "merge_ml [scenario_doc1, scenario_doc2] [] = Inr (Some o1)"
    and o2: "merge_mnl ?lfs = Inr o2"
    and m1: "max_score o1 =
         Max (insert 1 {s. \<exists>t\<in>set (techniques (merged_layer o1)). enabled t = Some True \<and> score t = Some s})"
    and g1: "maxValue (gradient (merged_layer o1)) = max_score o1"
    and m2: "max_score o2 =
         Max (insert 0 {s. \<exists>t\<in>set (techniques (merged_layer o2)). enabled t = Some True \<and> score t = Some s})"
    and g2: "maxValue (gradient (merged_layer o2)) = max_score o2"
    using max_score_over_enabled [OF h, of "[]"] by auto
  have t1: "techniques (merged_layer o1) = map post_val_ml (merged_val [scenario_doc1, scenario_doc2])"
    using merge_ml_techniques [of "[scenario_doc1, scenario_doc2]" "[]"] o1 by auto
  have t2: "techniques (merged_layer o2) = map post_val_mnl (merged_val [scenario_doc1, scenario_doc2])"
    using merge_mnl_techniques [of ?lfs] o2 by auto
  have s1: "map score (techniques (merged_layer o1)) = [Some 8, Some 1, Some 2]"
    unfolding t1 scenario_merged_val by (simp add: example_technique_def)
  have e1: "map enabled (techniques (merged_layer o1)) = [Some False, Some True, Some True]"
    unfolding t1 scenario_merged_val by (simp add: example_technique_def)
  have v1: "max_score o1 = 2"
    unfolding m1 t1 enabled_score_set scenario_merged_val scenario_enabled_scores by simp
  have v2: "max_score o2 = 2"
    unfolding m2 t2 enabled_score_set scenario_merged_val scenario_enabled_scores by simp
  show ?thesis using h o1 o2 s1 e1 v1 v2 g1 g2 by simp
qed

lemma ml_techniques_eq: "ls \<noteq> [] \<Longrightarrow> ml_techniques ls = map post_val_ml (merged_val ls)"
  using merge_ml_techniques [of ls "[]"] by (auto simp add: ml_techniques_def)

lemma mnl_techniques_eq: "lfs \<noteq> [] \<Longrightarrow> mnl_techniques lfs = map post_val_mnl (merged_val (map fst lfs))"
  using merge_mnl_techniques [of lfs] by (auto simp add: mnl_techniques_def)

lemma isspace_simps [simp]:
  "\<not> isspace CHR ''x''" "\<not> isspace CHR ''y''" "isspace CHR 0x0A" "isspace CHR '' ''"
  by (simp_all add: isspace_def)

lemma comment_docs_merged_val:
  "merged_val [comment_doc ''A'' ''x'', comment_doc ''B'' ''y''] =
     [example_technique ''T1'' 2 (''y'' @ [CHR 0x0A, CHR 0x0A] @ ''x'') True]"
  by (simp add: merged_val_def init_layers_def init_layer_def init_technique_def comment_doc_def
      example_layer_def example_technique_def merge_val_def merge_technique_def
      reconcile_def add_score_def add_comment_def disable_def)

text \<open>
  C3. For the layers A (comment "x") and B (comment "y") that share one technique, the
  scripts run on the list [A, B] pop B as the merged layer and append the comment of A:
  the merged comment is "y", a blank line, "x", and not "x", a blank line, "y".
\<close>

theorem comment_order_seed_last:
  "map comment (ml_techniques [comment_doc ''A'' ''x'', comment_doc ''B'' ''y''])
     = [Some (''y'' @ [CHR 0x0A, CHR 0x0A] @ ''x'')]
   \<and> map comment (mnl_techniques [(comment_doc ''A'' ''x'', ''A''), (comment_doc ''B'' ''y'', ''B'')])
     = [Some (''y'' @ [CHR 0x0A, CHR 0x0A] @ ''x'')]
   \<and> ''y'' @ [CHR 0x0A, CHR 0x0A] @ ''x'' \<noteq> ''x'' @ [CHR 0x0A, CHR 0x0A] @ ''y''"
  by (simp add: ml_techniques_eq mnl_techniques_eq comment_docs_merged_val post_val_ml_def
      post_val_mnl_def example_technique_def strip_comment_def strip_def strip_chars_def)

text \<open>
  C6. \<^verbatim>\<open>merge_navigator_layers.py\<close> on one layer whose only technique has score 0: the
  maximum stays at its initial value 0, and the gradient of the merged layer has
  \<^verbatim>\<open>minValue\<close> 0 and \<^verbatim>\<open>maxValue\<close> 0.
\<close>

theorem gradient_degenerate_mnl:
  "map_sum id (\<lambda>out. (minValue (gradient (merged_layer out)), maxValue (gradient (merged_layer out)),
                       max_score out))
     (merge_mnl [(unscored_doc, ''L'')]) = Inr (0, 0, 0)"
proof -
  have m: "merged_val [unscored_doc] = [example_technique ''T1001'' 0 [] True]"
    by (simp add: merged_val_def init_layers_def init_layer_def init_technique_def unscored_doc_def
        example_layer_def example_technique_def)
  have e: "enabled_scores [example_technique ''T1001'' 0 [] True] = [0]"
    by (simp add: enabled_scores_def example_technique_def)
  obtain out where o: "merge_mnl [(unscored_doc, ''L'')] = Inr out"
    and s: "max_score out = foldl max 0 (enabled_scores (merged_val (map fst [(unscored_doc, ''L'')])))"
    and g: "gradient (merged_layer out) =
        (gradient (last (init_layers (map fst [(unscored_doc, ''L'')]))))\<lparr>colors := [''#ffffff00'', ''#ff6666ff''],
           minValue := 0,
           maxValue := foldl max 0 (enabled_scores (merged_val (map fst [(unscored_doc, ''L'')])))\<rparr>"
    using merge_mnl_techniques [of "[(unscored_doc, ''L'')]"] by auto
  show ?thesis by (simp add: o s g m e)
qed

lemma gradient_and_legend:
  assumes "lfs \<noteq> []"
  shows "\<exists>o1 o2. merge_ml (map fst lfs) ns = Inr (Some o1) \<and> merge_mnl lfs = Inr o2
     \<and> colors (gradient (merged_layer o1)) = [''#ffffff00'', ''#ff6666ff'']
     \<and> minValue (gradient (merged_layer o1)) = 0
     \<and> maxValue (gradient (merged_layer o1)) = max_score o1
     \<and> 1 \<le> max_score o1
     \<and> legendItems (merged_layer o1) =
          [\<lparr>label = most_frequent, legend_color = ''#ff6666ff''\<rparr>,
           \<lparr>label = least_frequent, legend_color = ''#ffffff00''\<rparr>]
     \<and> colors (gradient (merged_layer o2)) = [''#ffffff00'', ''#ff6666ff'']
     \<and> minValue (gradient (merged_layer o2)) = 0
     \<and> maxValue (gradient (merged_layer o2)) = max_score o2
     \<and> 0 \<le> max_score o2
     \<and> legendItems (merged_layer o2) =
          [\<lparr>label = most_frequent, legend_color = ''#ff6666ff''\<rparr>,
           \<lparr>label = least_frequent, legend_color = ''#ffffff00''\<rparr>]"
proof -
  have ne: "map fst lfs \<noteq> []" using assms by simp
  have a: "1 \<le> foldl max (1::int) xs" for xs by (simp add: foldl_max_Max)
  have b: "0 \<le> foldl max (0::int) xs" for xs by (simp add: foldl_max_Max)
  show ?thesis
    by (subst merge_ml_eq [OF ne], subst merge_mnl_eq [OF assms], intro exI conjI, rule refl, rule refl)
       (simp_all add: set_metadata_ml_def set_metadata_mnl_def a b)
qed

lemma import_mnl_layers: "map fst (import_mnl files) = List.map_filter snd files"
  by (induction files) (auto split: option.splits)

lemma post_val_mnl_map: "map post_val_mnl M = map (\<lambda>t. t\<lparr>color := Some []\<rparr>) (map post_val_ml M)"
  by (induction M) (simp_all add: post_val_mnl_eq)

lemma find_map_init:
  "find_technique_in_layer T (map init_technique ts) = map_option init_technique (find_technique_in_layer T ts)"
  by (induction ts) simp_all

lemma find_map_post_ml:
  "find_technique_in_layer T (map post_val_ml M) = map_option post_val_ml (find_technique_in_layer T M)"
  by (induction M) simp_all

lemma find_map_post_mnl:
  "find_technique_in_layer T (map post_val_mnl M) = map_option post_val_mnl (find_technique_in_layer T M)"
  by (induction M) simp_all

lemma find_distinct:
  "distinct (map techniqueID ts) \<Longrightarrow> t \<in> set ts \<Longrightarrow> find_technique_in_layer (techniqueID t) ts = Some t"
  by (induction ts) auto

lemma find_foldl_other:
  "\<forall>m\<in>set M. normalized m \<Longrightarrow> \<forall>t\<in>set ts. normalized t \<Longrightarrow> T \<notin> techniqueID ` set ts \<Longrightarrow>
   find_technique_in_layer T (foldl merge_val M ts) = find_technique_in_layer T M"
proof (induction ts arbitrary: M)
  case Nil
  then show ?case by simp
next
  case (Cons t ts)
  have t: "normalized t" and ts: "\<forall>t\<in>set ts. normalized t" using Cons.prems(2) by simp_all
  have n: "\<forall>m\<in>set (merge_val M t). normalized m"
    using Cons.prems(1) t by (rule merge_val_normalized)
  have o: "techniqueID t \<noteq> T" and r: "T \<notin> techniqueID ` set ts" using Cons.prems(3) by auto
  have "find_technique_in_layer T (foldl merge_val (merge_val M t) ts) =
        find_technique_in_layer T (merge_val M t)"
    using n ts r by (rule Cons.IH)
  then show ?case using o by (simp add: find_merge_val [OF Cons.prems(1)])
qed

lemma find_foldl_distinct:
  assumes "\<forall>m\<in>set M. normalized m" and "\<forall>t\<in>set ts. normalized t"
    and "distinct (map techniqueID ts)" and "t \<in> set ts"
  shows "find_technique_in_layer (techniqueID t) (foldl merge_val M ts) =
     (case find_technique_in_layer (techniqueID t) M of
        None \<Rightarrow> Some t
      | Some m \<Rightarrow> Some (reconcile_val m t))"
  using assms
proof (induction ts arbitrary: M)
  case Nil
  then show ?case by simp
next
  case (Cons x ts)
  have x: "normalized x" and ts: "\<forall>t\<in>set ts. normalized t" using Cons.prems(2) by simp_all
  have n: "\<forall>m\<in>set (merge_val M x). normalized m"
    using Cons.prems(1) x by (rule merge_val_normalized)
  have d: "distinct (map techniqueID ts)" and nx: "techniqueID x \<notin> techniqueID ` set ts"
    using Cons.prems(3) by simp_all
  show ?case
  proof (cases "t = x")
    case True
    have "find_technique_in_layer (techniqueID x) (foldl merge_val (merge_val M x) ts) =
          find_technique_in_layer (techniqueID x) (merge_val M x)"
      using n ts nx by (rule find_foldl_other)
    then show ?thesis unfolding True by (simp add: find_merge_val [OF Cons.prems(1)])
  next
    case False
    then have m: "t \<in> set ts" using Cons.prems(4) by simp
    then have ne: "techniqueID x \<noteq> techniqueID t" using nx by auto
    have "find_technique_in_layer (techniqueID t) (foldl merge_val (merge_val M x) ts) =
       (case find_technique_in_layer (techniqueID t) (merge_val M x) of
          None \<Rightarrow> Some t
        | Some m \<Rightarrow> Some (reconcile_val m t))"
      using n ts d m by (rule Cons.IH)
    then show ?thesis using ne by (simp add: find_merge_val [OF Cons.prems(1)])
  qed
qed

lemma reconcile_val_score:
  "score m = Some a \<Longrightarrow> comment m \<noteq> None \<Longrightarrow> score t = Some b \<Longrightarrow>
   score (reconcile_val m t) = Some (a + b)"
  by (auto simp add: reconcile_val_def reconcile_def add_score_def add_comment_def disable_def
      split: option.splits)

lemma init_technique_score: "score t = Some a \<Longrightarrow> score (init_technique t) = Some a"
  by (simp add: init_technique_def Let_def)


lemma all_init_normalized: "\<forall>m\<in>set (map init_technique ts). normalized m"
  by (simp add: init_technique_normalized)

lemma merged_val_pair:
  "merged_val [A, B] =
     foldl merge_val (map init_technique (techniques B)) (map init_technique (techniques A))"
  by (simp add: merged_val_raw)

lemma find_merged_pair:
  assumes dA: "distinct (map techniqueID (techniques A))"
    and dB: "distinct (map techniqueID (techniques B))"
    and tA: "tA \<in> set (techniques A)" and tB: "tB \<in> set (techniques B)"
    and i: "techniqueID tA = techniqueID tB"
  shows "find_technique_in_layer (techniqueID tB) (merged_val [A, B]) =
     Some (reconcile_val (init_technique tB) (init_technique tA))"
proof -
  let ?A = "map init_technique (techniques A)" and ?B = "map init_technique (techniques B)"
  have d: "distinct (map techniqueID ?A)" using dA by (simp add: comp_def)
  have m: "init_technique tA \<in> set ?A" using tA by simp
  have f: "find_technique_in_layer (techniqueID tB) ?B = Some (init_technique tB)"
    using find_distinct [OF dB tB] by (simp add: find_map_init)
  have "find_technique_in_layer (techniqueID (init_technique tA)) (foldl merge_val ?B ?A) =
     (case find_technique_in_layer (techniqueID (init_technique tA)) ?B of
        None \<Rightarrow> Some (init_technique tA)
      | Some m \<Rightarrow> Some (reconcile_val m (init_technique tA)))"
    using all_init_normalized all_init_normalized d m by (rule find_foldl_distinct)
  then show ?thesis by (simp add: merged_val_pair i f)
qed

lemma reconcile_val_zero:
  "score t = Some 0 \<Longrightarrow> score (reconcile_val m t) = score m"
  by (auto simp add: reconcile_val_def reconcile_def add_score_def add_comment_def disable_def
      split: option.splits)

text \<open>
  C1. Let the layers A and B, each with distinct technique identifiers, both hold a
  technique with identifier T, with scores a and b. Both scripts, run on [A, B], return a
  merged layer in which the technique found for T has score a + b. And when a is 0,
  folding the initialized layer A into any accumulator of initialized techniques that
  holds T raises nothing and leaves the score of the accumulator's technique for T as it
  was.
\<close>

theorem shared_technique_scores_add:
  assumes "distinct (map techniqueID (techniques A))"
    and "distinct (map techniqueID (techniques B))"
    and "tA \<in> set (techniques A)" and "tB \<in> set (techniques B)"
    and "techniqueID tA = T" and "techniqueID tB = T"
    and "score tA = Some a" and "score tB = Some b"
  shows "(\<exists>o1 o2 m1 m2.
            merge_ml [A, B] ns = Inr (Some o1) \<and> merge_mnl [(A, fa), (B, fb)] = Inr o2
            \<and> find_technique_in_layer T (techniques (merged_layer o1)) = Some m1
            \<and> score m1 = Some (a + b)
            \<and> find_technique_in_layer T (techniques (merged_layer o2)) = Some m2
            \<and> score m2 = Some (a + b))
       \<and> (\<forall>acc m. a = 0 \<and> (\<forall>x\<in>set acc. normalized x) \<and> find_technique_in_layer T acc = Some m \<longrightarrow>
            (\<exists>acc' m'. merge_techniques acc (techniques (init_layer A)) = Inr acc'
               \<and> find_technique_in_layer T acc' = Some m' \<and> score m' = score m))"
proof (intro conjI allI impI)
  have i: "techniqueID tA = techniqueID tB" using assms(5,6) by simp
  have f: "find_technique_in_layer T (merged_val [A, B]) =
      Some (reconcile_val (init_technique tB) (init_technique tA))"
    using find_merged_pair [OF assms(1,2,3,4) i] assms(6) by simp
  have nB: "normalized (init_technique tB)" by (rule init_technique_normalized)
  have s: "score (reconcile_val (init_technique tB) (init_technique tA)) = Some (b + a)"
    using nB init_technique_score [OF assms(8)] init_technique_score [OF assms(7)]
    by (intro reconcile_val_score) (simp_all add: normalized_def)
  obtain o1 where o1: "merge_ml [A, B] ns = Inr (Some o1)"
    and t1: "techniques (merged_layer o1) = map post_val_ml (merged_val [A, B])"
    using merge_ml_techniques [of "[A, B]" ns] by auto
  obtain o2 where o2: "merge_mnl [(A, fa), (B, fb)] = Inr o2"
    and t2: "techniques (merged_layer o2) = map post_val_mnl (merged_val [A, B])"
    using merge_mnl_techniques [of "[(A, fa), (B, fb)]"] by auto
  let ?m = "reconcile_val (init_technique tB) (init_technique tA)"
  have a1: "find_technique_in_layer T (techniques (merged_layer o1)) = Some (post_val_ml ?m)"
    unfolding t1 by (simp add: find_map_post_ml f)
  have a2: "find_technique_in_layer T (techniques (merged_layer o2)) = Some (post_val_mnl ?m)"
    unfolding t2 by (simp add: find_map_post_mnl f)
  have b1: "score (post_val_ml ?m) = Some (a + b)" using s by (simp add: add.commute)
  have b2: "score (post_val_mnl ?m) = Some (a + b)" using s by (simp add: add.commute)
  show "\<exists>o1 o2 m1 m2.
            merge_ml [A, B] ns = Inr (Some o1) \<and> merge_mnl [(A, fa), (B, fb)] = Inr o2
            \<and> find_technique_in_layer T (techniques (merged_layer o1)) = Some m1
            \<and> score m1 = Some (a + b)
            \<and> find_technique_in_layer T (techniques (merged_layer o2)) = Some m2
            \<and> score m2 = Some (a + b)"
    using o1 o2 a1 b1 a2 b2 by (intro exI conjI)
next
  fix acc m
  assume h: "a = 0 \<and> (\<forall>x\<in>set acc. normalized x) \<and> find_technique_in_layer T acc = Some m"
  let ?A = "map init_technique (techniques A)"
  have n: "\<forall>x\<in>set acc. normalized x" and fm: "find_technique_in_layer T acc = Some m"
    and z: "a = 0" using h by simp_all
  have d: "distinct (map techniqueID ?A)" using assms(1) by (simp add: comp_def)
  have mem: "init_technique tA \<in> set ?A" using assms(3) by simp
  have e: "merge_techniques acc ?A = Inr (foldl merge_val acc ?A)"
    using merge_techniques_eq [OF n all_init_normalized] by simp
  have "find_technique_in_layer (techniqueID (init_technique tA)) (foldl merge_val acc ?A) =
     (case find_technique_in_layer (techniqueID (init_technique tA)) acc of
        None \<Rightarrow> Some (init_technique tA)
      | Some m \<Rightarrow> Some (reconcile_val m (init_technique tA)))"
    using n all_init_normalized d mem by (rule find_foldl_distinct)
  then have f: "find_technique_in_layer T (foldl merge_val acc ?A) =
      Some (reconcile_val m (init_technique tA))"
    using assms(5) fm by simp
  have "score (init_technique tA) = Some 0" using init_technique_score [OF assms(7)] z by simp
  then have s: "score (reconcile_val m (init_technique tA)) = score m" by (rule reconcile_val_zero)
  show "\<exists>acc' m'. merge_techniques acc (techniques (init_layer A)) = Inr acc'
               \<and> find_technique_in_layer T acc' = Some m' \<and> score m' = score m"
    using e f s by (simp add: init_layer_def)
qed

theorem shared_technique_scores_add_witness:
  "distinct (map techniqueID (techniques scenario_doc1))
   \<and> distinct (map techniqueID (techniques scenario_doc2))
   \<and> example_technique ''T1'' 5 [] True \<in> set (techniques scenario_doc1)
   \<and> example_technique ''T1'' 3 [] False \<in> set (techniques scenario_doc2)
   \<and> (\<exists>o1 o2 m1 m2.
         merge_ml [scenario_doc1, scenario_doc2] [] = Inr (Some o1)
         \<and> merge_mnl [(scenario_doc1, ''doc1''), (scenario_doc2, ''doc2'')] = Inr o2
         \<and> find_technique_in_layer ''T1'' (techniques (merged_layer o1)) = Some m1
         \<and> score m1 = Some 8
         \<and> find_technique_in_layer ''T1'' (techniques (merged_layer o2)) = Some m2
         \<and> score m2 = Some 8)
   \<and> (\<exists>acc' m'.
         merge_techniques [example_technique ''T1'' 7 [] True] (techniques (init_layer unscored_t1_doc))
           = Inr acc'
         \<and> find_technique_in_layer ''T1'' acc' = Some m' \<and> score m' = Some 7)"
proof -
  have h1: "distinct (map techniqueID (techniques scenario_doc1))"
    by (simp add: scenario_doc1_def example_layer_def example_technique_def)
  have h2: "distinct (map techniqueID (techniques scenario_doc2))"
    by (simp add: scenario_doc2_def example_layer_def example_technique_def)
  have h3: "example_technique ''T1'' 5 [] True \<in> set (techniques scenario_doc1)"
    by (simp add: scenario_doc1_def example_layer_def)
  have h4: "example_technique ''T1'' 3 [] False \<in> set (techniques scenario_doc2)"
    by (simp add: scenario_doc2_def example_layer_def)
  have h5: "techniqueID (example_technique ''T1'' 5 [] True) = ''T1''"
    and h6: "techniqueID (example_technique ''T1'' 3 [] False) = ''T1''"
    and h7: "score (example_technique ''T1'' 5 [] True) = Some 5"
    and h8: "score (example_technique ''T1'' 3 [] False) = Some 3"
    by (simp_all add: example_technique_def)
  have k1: "distinct (map techniqueID (techniques unscored_t1_doc))"
    by (simp add: unscored_t1_doc_def example_layer_def example_technique_def)
  have k3: "example_technique ''T1'' 0 [] True \<in> set (techniques unscored_t1_doc)"
    by (simp add: unscored_t1_doc_def example_layer_def)
  have k5: "techniqueID (example_technique ''T1'' 0 [] True) = ''T1''"
    and k7: "score (example_technique ''T1'' 0 [] True) = Some 0"
    by (simp_all add: example_technique_def)
  have acc: "(0::int) = 0 \<and> (\<forall>x\<in>set [example_technique ''T1'' 7 [] True]. normalized x)
      \<and> find_technique_in_layer ''T1'' [example_technique ''T1'' 7 [] True]
          = Some (example_technique ''T1'' 7 [] True)"
    by (simp add: normalized_def example_technique_def)
  have first: "\<exists>o1 o2 m1 m2.
         merge_ml [scenario_doc1, scenario_doc2] [] = Inr (Some o1)
         \<and> merge_mnl [(scenario_doc1, ''doc1''), (scenario_doc2, ''doc2'')] = Inr o2
         \<and> find_technique_in_layer ''T1'' (techniques (merged_layer o1)) = Some m1
         \<and> score m1 = Some 8
         \<and> find_technique_in_layer ''T1'' (techniques (merged_layer o2)) = Some m2
         \<and> score m2 = Some 8"
    using shared_technique_scores_add [OF h1 h2 h3 h4 h5 h6 h7 h8, of "[]" "''doc1''" "''doc2''"]
    by simp
  have "\<exists>acc' m'.
         merge_techniques [example_technique ''T1'' 7 [] True] (techniques (init_layer unscored_t1_doc))
           = Inr acc'
         \<and> find_technique_in_layer ''T1'' acc' = Some m'
         \<and> score m' = score (example_technique ''T1'' 7 [] True)"
    using shared_technique_scores_add [OF k1 h2 k3 h4 k5 h6 k7 h8, of "[]" "''z''" "''doc2''"] acc
    by blast
  then have second: "\<exists>acc' m'.
         merge_techniques [example_technique ''T1'' 7 [] True] (techniques (init_layer unscored_t1_doc))
           = Inr acc'
         \<and> find_technique_in_layer ''T1'' acc' = Some m' \<and> score m' = Some 7"
    by (simp add: example_technique_def)
  show ?thesis using h1 h2 h3 h4 first second by (intro conjI)
qed












lemma with_id_simps [simp]:
  "with_id T [] = []"
  "with_id T (x # M) = (if techniqueID x = T then x # with_id T M else with_id T M)"
  "with_id T (M @ N) = with_id T M @ with_id T N"
  by (simp_all add: with_id_def)

lemma with_id_empty: "with_id T M = [] \<longleftrightarrow> T \<notin> techniqueID ` set M"
  by (auto simp add: with_id_def filter_empty_conv)

lemma with_id_update:
  "techniqueID t' = T' \<Longrightarrow> T' \<noteq> T \<Longrightarrow> with_id T (update_technique T' t' M) = with_id T M"
  by (induction M) auto

lemma with_id_map_init: "with_id T (map init_technique M) = map init_technique (with_id T M)"
  by (induction M) simp_all

lemma with_id_map_post_ml: "with_id T (map post_val_ml M) = map post_val_ml (with_id T M)"
  by (induction M) simp_all

lemma with_id_map_post_mnl: "with_id T (map post_val_mnl M) = map post_val_mnl (with_id T M)"
  by (induction M) simp_all

lemma with_id_merge_other:
  assumes n: "\<forall>m\<in>set M. normalized m" and o: "techniqueID t \<noteq> T"
  shows "with_id T (merge_val M t) = with_id T M"
proof (cases "find_technique_in_layer (techniqueID t) M")
  case None
  then show ?thesis using o by (simp add: merge_val_cases [OF n])
next
  case (Some m)
  then have "normalized m" using n find_Some_mem by blast
  then have "techniqueID (reconcile_val m t) = techniqueID m" by (rule reconcile_val_id)
  moreover have "techniqueID m = techniqueID t" using Some find_Some_mem by blast
  ultimately have "techniqueID (reconcile_val m t) = techniqueID t" by simp
  then have "with_id T (update_technique (techniqueID t) (reconcile_val m t) M) = with_id T M"
    using o by (rule with_id_update)
  then show ?thesis using Some by (simp add: merge_val_cases [OF n])
qed

lemma with_id_foldl_other:
  "\<forall>m\<in>set M. normalized m \<Longrightarrow> \<forall>t\<in>set ts. normalized t \<Longrightarrow> with_id T ts = [] \<Longrightarrow>
   with_id T (foldl merge_val M ts) = with_id T M"
proof (induction ts arbitrary: M)
  case Nil
  then show ?case by simp
next
  case (Cons t ts)
  have t: "normalized t" and ts: "\<forall>t\<in>set ts. normalized t" using Cons.prems(2) by simp_all
  have n: "\<forall>m\<in>set (merge_val M t). normalized m"
    using Cons.prems(1) t by (rule merge_val_normalized)
  have o: "techniqueID t \<noteq> T" and r: "with_id T ts = []"
    using Cons.prems(3) by (simp_all split: if_splits)
  have "with_id T (foldl merge_val (merge_val M t) ts) = with_id T (merge_val M t)"
    using n ts r by (rule Cons.IH)
  then show ?case using with_id_merge_other [OF Cons.prems(1) o] by simp
qed

lemma with_id_merge_new:
  assumes n: "\<forall>m\<in>set M. normalized m" and e: "with_id (techniqueID t) M = []"
  shows "with_id (techniqueID t) (merge_val M t) = [t]"
proof -
  have "find_technique_in_layer (techniqueID t) M = None"
    using e by (simp add: with_id_empty find_None_iff)
  then show ?thesis using e by (simp add: merge_val_cases [OF n])
qed

lemma singleton_filter:
  assumes "length (with_id T M) = 1" and "t \<in> set M" and "techniqueID t = T"
  shows "with_id T M = [t]"
proof -
  obtain y where y: "with_id T M = [y]"
    using assms(1) by (cases "with_id T M") simp_all
  have "t \<in> set (with_id T M)" using assms(2,3) by (simp add: with_id_def)
  then show ?thesis using y by simp
qed

lemma with_id_merged_val:
  assumes ne: "ls \<noteq> []"
    and l: "l \<in> set ls" and t: "t \<in> set (techniques l)" and i: "techniqueID t = T"
    and c: "length (with_id T (concat (map techniques ls))) = 1"
  shows "with_id T (merged_val ls) = [init_technique t]"
proof -
  let ?S = "techniques (last ls)" and ?R = "concat (map techniques (butlast ls))"
  have bl: "butlast ls @ [last ls] = ls" using ne by (rule append_butlast_last_id)
  have "concat (map techniques (butlast ls @ [last ls])) = ?R @ ?S" by simp
  then have split: "concat (map techniques ls) = ?R @ ?S" unfolding bl .
  have tin: "t \<in> set (?R @ ?S)"
    unfolding split [symmetric] set_concat using l t by (simp, blast)
  have one: "with_id T (?R @ ?S) = [t]"
    using c tin i unfolding split by (rule singleton_filter)
  have nS: "\<forall>m\<in>set (map init_technique ?S). normalized m" by (rule all_init_normalized)
  have nR: "\<forall>m\<in>set (map init_technique ?R). normalized m" by (rule all_init_normalized)
  have "with_id T (foldl merge_val (map init_technique ?S) (map init_technique ?R)) = [init_technique t]"
  proof (cases "with_id T ?R = []")
    case True
    then have "with_id T ?S = [t]" using one by simp
    then have s: "with_id T (map init_technique ?S) = [init_technique t]"
      by (simp add: with_id_map_init)
    have r: "with_id T (map init_technique ?R) = []" using True by (simp add: with_id_map_init)
    show ?thesis using with_id_foldl_other [OF nS nR r] s by simp
  next
    case False
    then have rt: "with_id T ?R = [t]" and st: "with_id T ?S = []"
      using one by (simp_all add: append_eq_Cons_conv)
    have "t \<in> set (with_id T ?R)" using rt by simp
    then have tr: "t \<in> set ?R" by (simp add: with_id_def)
    obtain pre post where pp: "?R = pre @ t # post" using split_list [OF tr] by blast
    have "with_id T pre @ t # with_id T post = [t]" using rt i unfolding pp by simp
    then have pre: "with_id T pre = []" and post: "with_id T post = []"
      by (simp_all add: append_eq_Cons_conv)
    let ?M0 = "map init_technique ?S"
    let ?M1 = "foldl merge_val ?M0 (map init_technique pre)"
    let ?M2 = "merge_val ?M1 (init_technique t)"
    have npre: "\<forall>m\<in>set (map init_technique pre). normalized m" by (rule all_init_normalized)
    have npost: "\<forall>m\<in>set (map init_technique post). normalized m" by (rule all_init_normalized)
    have n1: "\<forall>m\<in>set ?M1. normalized m" using nS npre by (rule foldl_merge_val_normalized)
    have n2: "\<forall>m\<in>set ?M2. normalized m"
      using n1 init_technique_normalized by (rule merge_val_normalized)
    have e1: "with_id T ?M1 = []"
      using with_id_foldl_other [OF nS npre, of T] pre st by (simp add: with_id_map_init)
    have "with_id (techniqueID (init_technique t)) ?M2 = [init_technique t]"
      using n1 e1 i by (intro with_id_merge_new) simp_all
    then have e2: "with_id T ?M2 = [init_technique t]" using i by simp
    have e3: "with_id T (foldl merge_val ?M2 (map init_technique post)) = with_id T ?M2"
      using n2 npost by (rule with_id_foldl_other) (simp add: with_id_map_init post)
    show ?thesis unfolding pp using e2 e3 by simp
  qed
  then show ?thesis by (simp add: merged_val_raw [OF ne])
qed

lemma post_val_ml_explicit:
  "post_val_ml u =
     u\<lparr>showSubtechniques := Some False,
       comment := (if enabled u = Some True then map_option strip (comment u) else comment u)\<rparr>"
proof (cases "enabled u = Some True")
  case True
  then show ?thesis
    by (cases "comment u")
       (auto simp add: post_val_ml_def Let_def strip_comment_def strip_def strip_chars_def)
next
  case False
  then have "\<not> is_true (enabled u)" by (simp add: is_true_iff)
  then show ?thesis using False by (simp add: post_val_ml_def)
qed

lemma padded_merged_val: "merged_val [padded_doc] = [example_technique ''T1'' 1 '' x'' True]"
  by (simp add: merged_val_def init_layers_def init_layer_def init_technique_def padded_doc_def
      example_layer_def example_technique_def)

lemma strip_padded: "strip '' x'' = ''x''"
  by (simp add: strip_def strip_chars_def)

text \<open>
  C4, as the claim states it, fails: a layer merged alone, whose technique is enabled and
  has the comment " x", comes out with the comment "x", and from
  \<^verbatim>\<open>merge_navigator_layers.py\<close> with the color reset to the empty string as well.
\<close>

theorem single_document_record_counterexample:
  "ml_techniques [padded_doc]
     \<noteq> [(example_technique ''T1'' 1 '' x'' True)\<lparr>showSubtechniques := Some False\<rparr>]
   \<and> map comment (ml_techniques [padded_doc]) = [Some ''x'']
   \<and> map comment (techniques padded_doc) = [Some '' x'']
   \<and> map color (mnl_techniques [(padded_doc, ''L'')]) = [Some []]
   \<and> map color (techniques padded_doc) = [None]"
proof -
  have a: "ml_techniques [padded_doc] = [post_val_ml (example_technique ''T1'' 1 '' x'' True)]"
    by (simp add: ml_techniques_eq padded_merged_val)
  have b: "mnl_techniques [(padded_doc, ''L'')] = [post_val_mnl (example_technique ''T1'' 1 '' x'' True)]"
    by (simp add: mnl_techniques_eq padded_merged_val)
  have c: "post_val_ml (example_technique ''T1'' 1 '' x'' True)
      = (example_technique ''T1'' 1 ''x'' True)\<lparr>showSubtechniques := Some False\<rparr>"
    by (simp add: post_val_ml_explicit example_technique_def strip_padded)
  have d: "techniques padded_doc = [example_technique ''T1'' 1 '' x'' True]"
    by (simp add: padded_doc_def example_layer_def)
  show ?thesis unfolding a b d post_val_mnl_eq c by (simp add: example_technique_def)
qed

text \<open>
  C4, amended. Let the identifier T occur in exactly one technique t of all the input
  layers together. Then both scripts return a merged layer with exactly one technique of
  identifier T. From \<^verbatim>\<open>merge_layers.py\<close> it is t after the normalizer (t itself when t is
  normalized) with \<^verbatim>\<open>showSubtechniques\<close> false and, when t is enabled, its comment stripped
  of leading and trailing whitespace; identifier, score, enabled flag and every other
  field are those of the normalized t. From \<^verbatim>\<open>merge_navigator_layers.py\<close> it is the same
  technique with the color reset to the empty string.
\<close>

theorem single_document_record_post_processed:
  assumes "l \<in> set (map fst lfs)" and "t \<in> set (techniques l)" and "techniqueID t = T"
    and "length (filter (\<lambda>x. techniqueID x = T) (concat (map techniques (map fst lfs)))) = 1"
  shows "\<exists>o1 o2 r. merge_ml (map fst lfs) ns = Inr (Some o1) \<and> merge_mnl lfs = Inr o2
     \<and> r = (init_technique t)
             \<lparr>showSubtechniques := Some False,
              comment := (if enabled (init_technique t) = Some True
                          then map_option strip (comment (init_technique t))
                          else comment (init_technique t))\<rparr>
     \<and> filter (\<lambda>x. techniqueID x = T) (techniques (merged_layer o1)) = [r]
     \<and> filter (\<lambda>x. techniqueID x = T) (techniques (merged_layer o2)) = [r\<lparr>color := Some []\<rparr>]
     \<and> techniqueID r = techniqueID t \<and> score r = score (init_technique t)
     \<and> enabled r = enabled (init_technique t) \<and> tacticName r = tacticName t
     \<and> color r = color t
     \<and> (normalized t \<longrightarrow> init_technique t = t)"
proof -
  let ?ls = "map fst lfs"
  let ?r = "post_val_ml (init_technique t)"
  have ne: "?ls \<noteq> []" using assms(1) by auto
  have ne0: "lfs \<noteq> []" using ne by simp
  have c: "length (with_id T (concat (map techniques ?ls))) = 1"
    using assms(4) by (simp only: with_id_def)
  have w: "with_id T (merged_val ?ls) = [init_technique t]"
    using ne assms(1) assms(2) assms(3) c by (rule with_id_merged_val)
  obtain o1 where o1: "merge_ml ?ls ns = Inr (Some o1)"
    and t1: "techniques (merged_layer o1) = map post_val_ml (merged_val ?ls)"
    using merge_ml_techniques [OF ne, of ns] by blast
  obtain o2 where o2: "merge_mnl lfs = Inr o2"
    and t2: "techniques (merged_layer o2) = map post_val_mnl (merged_val ?ls)"
    using merge_mnl_techniques [OF ne0] by blast
  have r: "?r = (init_technique t)
             \<lparr>showSubtechniques := Some False,
              comment := (if enabled (init_technique t) = Some True
                          then map_option strip (comment (init_technique t))
                          else comment (init_technique t))\<rparr>"
    by (rule post_val_ml_explicit)
  have f1: "filter (\<lambda>x. techniqueID x = T) (techniques (merged_layer o1)) = [?r]"
    unfolding t1 with_id_def [symmetric] by (simp add: with_id_map_post_ml w)
  have f2: "filter (\<lambda>x. techniqueID x = T) (techniques (merged_layer o2)) = [?r\<lparr>color := Some []\<rparr>]"
    unfolding t2 with_id_def [symmetric] by (simp add: with_id_map_post_mnl w post_val_mnl_eq)
  have g: "techniqueID ?r = techniqueID t" "score ?r = score (init_technique t)"
    "enabled ?r = enabled (init_technique t)"
    by simp_all
  have h: "tacticName ?r = tacticName t" "color ?r = color t"
    by (simp_all add: post_val_ml_explicit init_technique_def Let_def)
  have n: "normalized t \<longrightarrow> init_technique t = t" by (simp add: init_technique_fixed)
  show ?thesis using o1 o2 r f1 f2 g h n by (intro exI conjI)
qed

theorem single_document_record_post_processed_witness:
  "padded_doc \<in> set (map fst [(padded_doc, ''L'')])
   \<and> example_technique ''T1'' 1 '' x'' True \<in> set (techniques padded_doc)
   \<and> length (filter (\<lambda>x. techniqueID x = ''T1'')
                (concat (map techniques (map fst [(padded_doc, ''L'')])))) = 1
   \<and> normalized (example_technique ''T1'' 1 '' x'' True)
   \<and> (\<exists>o1 o2. merge_ml [padded_doc] [] = Inr (Some o1) \<and> merge_mnl [(padded_doc, ''L'')] = Inr o2
        \<and> filter (\<lambda>x. techniqueID x = ''T1'') (techniques (merged_layer o1))
            = [(example_technique ''T1'' 1 ''x'' True)\<lparr>showSubtechniques := Some False\<rparr>]
        \<and> filter (\<lambda>x. techniqueID x = ''T1'') (techniques (merged_layer o2))
            = [(example_technique ''T1'' 1 ''x'' True)\<lparr>showSubtechniques := Some False,
                                                       color := Some []\<rparr>])"
proof -
  let ?t = "example_technique ''T1'' 1 '' x'' True"
  have h1: "padded_doc \<in> set (map fst [(padded_doc, ''L'')])" by simp
  have h2: "?t \<in> set (techniques padded_doc)" by (simp add: padded_doc_def example_layer_def)
  have h3: "techniqueID ?t = ''T1''" by (simp add: example_technique_def)
  have h4: "length (filter (\<lambda>x. techniqueID x = ''T1'')
                (concat (map techniques (map fst [(padded_doc, ''L'')])))) = 1"
    by (simp add: padded_doc_def example_layer_def example_technique_def)
  have n: "normalized ?t" by (simp add: normalized_def example_technique_def)
  have i: "init_technique ?t = ?t" using n by (rule init_technique_fixed)
  have v: "?t\<lparr>showSubtechniques := Some False,
              comment := (if enabled ?t = Some True then map_option strip (comment ?t) else comment ?t)\<rparr>
           = (example_technique ''T1'' 1 ''x'' True)\<lparr>showSubtechniques := Some False\<rparr>"
    by (simp add: example_technique_def strip_padded)
  obtain o1 o2 r where o1: "merge_ml (map fst [(padded_doc, ''L'')]) [] = Inr (Some o1)"
    and o2: "merge_mnl [(padded_doc, ''L'')] = Inr o2"
    and r: "r = (init_technique ?t)
             \<lparr>showSubtechniques := Some False,
              comment := (if enabled (init_technique ?t) = Some True
                          then map_option strip (comment (init_technique ?t))
                          else comment (init_technique ?t))\<rparr>"
    and f1: "filter (\<lambda>x. techniqueID x = ''T1'') (techniques (merged_layer o1)) = [r]"
    and f2: "filter (\<lambda>x. techniqueID x = ''T1'') (techniques (merged_layer o2)) = [r\<lparr>color := Some []\<rparr>]"
    using single_document_record_post_processed [OF h1 h2 h3 h4, of "[]"] by blast
  have rv: "r = (example_technique ''T1'' 1 ''x'' True)\<lparr>showSubtechniques := Some False\<rparr>"
    using r unfolding i v .
  have a: "\<exists>o1 o2. merge_ml [padded_doc] [] = Inr (Some o1) \<and> merge_mnl [(padded_doc, ''L'')] = Inr o2
        \<and> filter (\<lambda>x. techniqueID x = ''T1'') (techniques (merged_layer o1))
            = [(example_technique ''T1'' 1 ''x'' True)\<lparr>showSubtechniques := Some False\<rparr>]
        \<and> filter (\<lambda>x. techniqueID x = ''T1'') (techniques (merged_layer o2))
            = [(example_technique ''T1'' 1 ''x'' True)\<lparr>showSubtechniques := Some False,
                                                       color := Some []\<rparr>]"
    using o1 o2 f1 f2 unfolding rv by auto
  show ?thesis using h1 h2 h4 n a by (intro conjI)
qed

lemma map_filter_snd_same:
  "map snd a = map snd b \<Longrightarrow> List.map_filter snd a = List.map_filter snd b"
proof (induction a arbitrary: b)
  case Nil
  then show ?case by simp
next
  case (Cons x a)
  then obtain y b' where b: "b = y # b'" and s: "snd x = snd y" and r: "map snd a = map snd b'"
    by (cases b) auto
  have "List.map_filter snd a = List.map_filter snd b'" using r by (rule Cons.IH)
  then show ?case unfolding b by (simp add: s split: option.splits)
qed

lemma layer_name_ml_described:
  "description l = Some d \<Longrightarrow> \<exists>w n. layer_name_ml l p = Inr (w, n)"
  by (simp add: layer_name_ml_def split: option.splits)

lemma import_ml_described:
  "\<forall>f\<in>set files. \<exists>l d. snd f = Some l \<and> description l = Some d \<Longrightarrow>
   \<exists>ns ws. import_ml files = Inr (List.map_filter snd files, ns, ws)
      \<and> list_all2 (\<lambda>f n. \<exists>l w. snd f = Some l \<and> layer_name_ml l (fst f) = Inr (w, n)) files ns"
proof (induction files)
  case Nil
  then show ?case by simp
next
  case (Cons f files)
  obtain p parsed where f: "f = (p, parsed)" by (cases f)
  obtain l d where l: "parsed = Some l" and d: "description l = Some d"
    using Cons.prems f by auto
  obtain w n where n: "layer_name_ml l p = Inr (w, n)"
    using layer_name_ml_described [OF d] by blast
  have "\<forall>f\<in>set files. \<exists>l d. snd f = Some l \<and> description l = Some d"
    using Cons.prems by simp
  then obtain ns ws where r: "import_ml files = Inr (List.map_filter snd files, ns, ws)"
    and a: "list_all2 (\<lambda>f n. \<exists>l w. snd f = Some l \<and> layer_name_ml l (fst f) = Inr (w, n)) files ns"
    using Cons.IH by blast
  have i: "import_ml (f # files) = Inr (List.map_filter snd (f # files), n # ns, w @ ws)"
    by (simp add: f l n r)
  have b: "list_all2 (\<lambda>f n. \<exists>l w. snd f = Some l \<and> layer_name_ml l (fst f) = Inr (w, n))
             (f # files) (n # ns)"
    using a n by (simp add: f l)
  show ?case using i b by (intro exI conjI)
qed

lemma import_ml_exit:
  "None \<in> snd ` set files \<Longrightarrow> \<forall>l\<in>set (List.map_filter snd files). description l \<noteq> None \<Longrightarrow>
   import_ml files = Inl (Exit 1)"
proof (induction files)
  case Nil
  then show ?case by simp
next
  case (Cons f files)
  obtain p parsed where f: "f = (p, parsed)" by (cases f)
  show ?case
  proof (cases parsed)
    case None
    then show ?thesis by (simp add: f)
  next
    case (Some l)
    have a: "None \<in> snd ` set files" using Cons.prems(1) f Some by auto
    have b: "\<forall>l\<in>set (List.map_filter snd files). description l \<noteq> None"
      using Cons.prems(2) by (simp add: f Some)
    have "description l \<noteq> None" using Cons.prems(2) by (simp add: f Some)
    then obtain d where "description l = Some d" by auto
    then obtain w n where n: "layer_name_ml l p = Inr (w, n)"
      using layer_name_ml_described by blast
    have "import_ml files = Inl (Exit 1)" using a b by (rule Cons.IH)
    then show ?thesis by (simp add: f Some n)
  qed
qed

lemma import_ml_type_error:
  "None \<notin> snd ` set files \<Longrightarrow> \<exists>l\<in>set (List.map_filter snd files). description l = None \<Longrightarrow>
   import_ml files = Inl TypeError"
proof (induction files)
  case Nil
  then show ?case by simp
next
  case (Cons f files)
  obtain p parsed where f: "f = (p, parsed)" by (cases f)
  obtain l where l: "parsed = Some l" using Cons.prems(1) f by (cases parsed) auto
  have a: "None \<notin> snd ` set files" using Cons.prems(1) by auto
  show ?case
  proof (cases "description l")
    case None
    then show ?thesis by (simp add: f l layer_name_ml_def)
  next
    case (Some d)
    then obtain w n where n: "layer_name_ml l p = Inr (w, n)"
      using layer_name_ml_described by blast
    have "\<exists>l\<in>set (List.map_filter snd files). description l = None"
      using Cons.prems(2) Some by (simp add: f l)
    then have "import_ml files = Inl TypeError" using a Cons.IH by blast
    then show ?thesis by (simp add: f l n)
  qed
qed

lemma import_mnl_filter: "import_mnl (filter (\<lambda>f. snd f \<noteq> None) files) = import_mnl files"
  by (induction files) (auto split: option.splits)

lemma import_mnl_length: "None \<notin> snd ` set files \<Longrightarrow> length (import_mnl files) = length files"
proof (induction files)
  case Nil
  then show ?case by simp
next
  case (Cons f files)
  obtain p parsed where f: "f = (p, parsed)" by (cases f)
  obtain l where l: "parsed = Some l" using Cons.prems f by (cases parsed) auto
  have "None \<notin> snd ` set files" using Cons.prems by auto
  then have "length (import_mnl files) = length files" by (rule Cons.IH)
  then show ?case by (simp add: f l)
qed

lemma str_nat_head: "\<exists>d r. d < 10 \<and> str_nat n = digit_char d # r"
proof (induction n rule: str_nat.induct)
  case (1 n)
  show ?case
  proof (cases "n < 10")
    case True
    have "str_nat n = [digit_char n]" using True by (subst str_nat.simps) simp
    then show ?thesis using True by blast
  next
    case False
    then obtain d r where d: "d < 10" and s: "str_nat (n div 10) = digit_char d # r"
      using 1 by blast
    have "str_nat n = str_nat (n div 10) @ [digit_char (n mod 10)]"
      using False by (subst str_nat.simps) simp
    then have "str_nat n = digit_char d # (r @ [digit_char (n mod 10)])" using s by simp
    then show ?thesis using d by blast
  qed
qed

lemma digit_char_not_M: "d < 10 \<Longrightarrow> digit_char d \<noteq> CHR ''M''"
proof
  assume d: "d < 10" and e: "digit_char d = CHR ''M''"
  have "(of_char (digit_char d) :: nat) = 48 + d" using d by (simp add: digit_char_def)
  moreover have "(of_char (CHR ''M'') :: nat) = 77" by simp
  ultimately show False using d e by simp
qed

lemma merged_name_differs: "str_nat n @ '' layers merged'' \<noteq> ''Matrix of aggregated techniques''"
proof -
  obtain d r where d: "d < 10" and s: "str_nat n = digit_char d # r"
    using str_nat_head by blast
  show ?thesis unfolding s using digit_char_not_M [OF d] by simp
qed

lemma merged_layers_related:
  "set_metadata_mnl (l\<lparr>techniques := map post_val_mnl M\<rparr>) lfs mxn =
   (set_metadata_ml (l\<lparr>techniques := map post_val_ml M\<rparr>) ns mxl)
     \<lparr>techniques := map (\<lambda>t. t\<lparr>color := Some []\<rparr>)
         (techniques (set_metadata_ml (l\<lparr>techniques := map post_val_ml M\<rparr>) ns mxl)),
      name := str_nat (length lfs) @ '' layers merged'',
      description := Some (''ATT&CK Techniques used by ''
          @ strip (join '', '' (map (\<lambda>(l, f). snd (get_layer_name l f)) lfs))
          @ ''. Maximum score is '' @ str_int mxn),
      gradient := (gradient (set_metadata_ml (l\<lparr>techniques := map post_val_ml M\<rparr>) ns mxl))
                    \<lparr>maxValue := mxn\<rparr>\<rparr>"
  by (simp add: set_metadata_mnl_def set_metadata_ml_def set_display_def Let_def post_val_mnl_map)

lemma set_metadata_ml_name:
  "name (set_metadata_ml l ns mx) = ''Matrix of aggregated techniques''"
  "description (set_metadata_ml l ns mx) = Some (''ATT&CK Techniques used by '' @ strip (join '', '' ns))"
  by (simp_all add: set_metadata_ml_def set_display_def Let_def)

lemma scenario_labels:
  "layer_name_ml scenario_doc1 ''layers/G0001.json''
     = Inr ([name_warning ''layers/G0001.json''], ''G0001.json'')"
  "layer_name_ml scenario_doc2 ''layers/G0002.json''
     = Inr ([name_warning ''layers/G0002.json''], ''G0002.json'')"
  "get_layer_name scenario_doc1 ''G0001'' = ([name_warning ''G0001''], ''G0001'')"
  "get_layer_name scenario_doc2 ''G0002'' = ([name_warning ''G0002''], ''G0002'')"
  by (simp_all add: layer_name_ml_def get_layer_name_def file_name_of_path_def scenario_doc1_def
      scenario_doc2_def example_layer_def)

lemma scenario_imports:
  "import_ml scenario_paths =
     Inr ([scenario_doc1, scenario_doc2], [''G0001.json'', ''G0002.json''],
          [name_warning ''layers/G0001.json'', name_warning ''layers/G0002.json''])"
  "import_mnl scenario_files = [(scenario_doc1, ''G0001''), (scenario_doc2, ''G0002'')]"
  by (simp_all add: scenario_paths_def scenario_files_def scenario_labels)

lemma digit_chars:
  "digit_char (Suc 0) = CHR ''1''" "digit_char (Suc (Suc 0)) = CHR ''2''"
  "digit_char 2 = CHR ''2''"
  by code_simp+

lemma scenario_strings:
  "strip ''G0001.json, G0002.json'' = ''G0001.json, G0002.json''"
  "strip ''G0001, G0002'' = ''G0001, G0002''"
  "str_int 2 = ''2''" "str_nat (Suc (Suc 0)) = ''2''" "str_nat (Suc 0) = ''1''"
  by (simp_all add: strip_def strip_chars_def isspace_def str_int_def digit_chars)

text \<open>
  C10, as the claim states it, fails: the two scripts differ in more than the initial
  maximum, the reaction to a file that does not parse and the color reset. On the same two
  layers, which both parse and give the maximum 2 in both scripts, \<^verbatim>\<open>merge_layers.py\<close>
  names the merged layer "Matrix of aggregated techniques" and describes it by the file
  names, while \<^verbatim>\<open>merge_navigator_layers.py\<close> names it "2 layers merged" and describes it
  by the file names up to the first dot, followed by the maximum score. And on a layer
  without description \<^verbatim>\<open>merge_layers.py\<close> raises \<^verbatim>\<open>TypeError\<close>, while
  \<^verbatim>\<open>merge_navigator_layers.py\<close> returns a merged layer.
\<close>

theorem merge_entry_points_counterexample:
  "map_sum id (map_option (\<lambda>out. (name (merged_layer out), description (merged_layer out),
                                    max_score out)))
     (merge_layers_path scenario_paths)
     = Inr (Some (''Matrix of aggregated techniques'',
                  Some ''ATT&CK Techniques used by G0001.json, G0002.json'', 2))
   \<and> map_sum id (\<lambda>out. (name (merged_layer out), description (merged_layer out), max_score out))
       (merge_navigator_layers scenario_files)
     = Inr (''2 layers merged'',
            Some ''ATT&CK Techniques used by G0001, G0002. Maximum score is 2'', 2)
   \<and> merge_layers_path [(''layers/G0001.json'', Some undescribed_doc)] = Inl TypeError
   \<and> map_sum id (\<lambda>out. name (merged_layer out))
       (merge_navigator_layers [(''G0001.json'', Some undescribed_doc)]) = Inr ''1 layers merged''"
proof -
  have m: "foldl max 1 (enabled_scores (merged_val [scenario_doc1, scenario_doc2])) = 2"
    "foldl max 0 (enabled_scores (merged_val [scenario_doc1, scenario_doc2])) = 2"
    by (simp_all add: scenario_merged_val scenario_enabled_scores)
  have a: "map_sum id (map_option (\<lambda>out. (name (merged_layer out), description (merged_layer out),
                                    max_score out)))
     (merge_layers_path scenario_paths)
     = Inr (Some (''Matrix of aggregated techniques'',
                  Some ''ATT&CK Techniques used by G0001.json, G0002.json'', 2))"
    by (simp add: merge_layers_path_def scenario_imports merge_ml_eq m set_metadata_ml_name
        scenario_strings)
  have b: "map_sum id (\<lambda>out. (name (merged_layer out), description (merged_layer out), max_score out))
       (merge_navigator_layers scenario_files)
     = Inr (''2 layers merged'',
            Some ''ATT&CK Techniques used by G0001, G0002. Maximum score is 2'', 2)"
    by (simp add: merge_navigator_layers_def scenario_imports merge_mnl_eq m set_metadata_mnl_def
        set_display_def Let_def scenario_labels scenario_strings digit_chars)
  have c: "merge_layers_path [(''layers/G0001.json'', Some undescribed_doc)] = Inl TypeError"
    by (simp add: merge_layers_path_def layer_name_ml_def undescribed_doc_def)
  have d: "map_sum id (\<lambda>out. name (merged_layer out))
       (merge_navigator_layers [(''G0001.json'', Some undescribed_doc)]) = Inr ''1 layers merged''"
    by (simp add: merge_navigator_layers_def merge_mnl_eq set_metadata_mnl_def set_display_def
        Let_def scenario_strings digit_chars)
  show ?thesis using a b c d by (intro conjI)
qed

text \<open>
  C10, amended. Let the two scripts import the same documents in the same order (the paths
  may differ). When every file parses, there is at least one and every layer has a
  description, both scripts return a merged layer: the techniques of the one of
  \<^verbatim>\<open>merge_navigator_layers.py\<close> are those of \<^verbatim>\<open>merge_layers.py\<close>, in the same order and with
  the same fields, but for the color reset to the empty string; the number of disabled
  techniques is the same; the maximum of \<^verbatim>\<open>merge_layers.py\<close> is the larger of 1 and the
  maximum of \<^verbatim>\<open>merge_navigator_layers.py\<close>; and the merged layers are equal but for the
  techniques' color, the upper bound of the gradient, the name ("Matrix of aggregated
  techniques" against the number of layers followed by " layers merged", never equal) and
  the description (built from the labels that each script resolves in its own way, and
  followed by the maximum score in \<^verbatim>\<open>merge_navigator_layers.py\<close> only). Without any file
  \<^verbatim>\<open>merge_layers.py\<close> skips the path and \<^verbatim>\<open>merge_navigator_layers.py\<close> ends with
  \<^verbatim>\<open>exit(0)\<close>. A file that does not parse ends \<^verbatim>\<open>merge_layers.py\<close> with \<^verbatim>\<open>exit(1)\<close> (when
  the layers have descriptions), while \<^verbatim>\<open>merge_navigator_layers.py\<close> runs as if the file
  were not there. A layer without description, among files that all parse, makes
  \<^verbatim>\<open>merge_layers.py\<close> raise \<^verbatim>\<open>TypeError\<close>, while \<^verbatim>\<open>merge_navigator_layers.py\<close> returns a
  merged layer.
\<close>

theorem merge_entry_points_compared:
  assumes same: "map snd files1 = map snd files2"
  shows
  "(files1 = [] \<longrightarrow>
      merge_layers_path files1 = Inr None \<and> merge_navigator_layers files2 = Inl (Exit 0))
   \<and> (files1 \<noteq> [] \<and> (\<forall>f\<in>set files1. \<exists>l d. snd f = Some l \<and> description l = Some d) \<longrightarrow>
        (\<exists>o1 o2 ns ws.
           import_ml files1 = Inr (List.map_filter snd files1, ns, ws)
           \<and> list_all2 (\<lambda>f n. \<exists>l w. snd f = Some l \<and> layer_name_ml l (fst f) = Inr (w, n)) files1 ns
           \<and> merge_layers_path files1 = Inr (Some o1)
           \<and> merge_navigator_layers files2 = Inr o2
           \<and> techniques (merged_layer o2) =
               map (\<lambda>t. t\<lparr>color := Some []\<rparr>) (techniques (merged_layer o1))
           \<and> number_of_techniques_disabled o2 = number_of_techniques_disabled o1
           \<and> max_score o1 = max 1 (max_score o2)
           \<and> name (merged_layer o1) = ''Matrix of aggregated techniques''
           \<and> description (merged_layer o1) =
               Some (''ATT&CK Techniques used by '' @ strip (join '', '' ns))
           \<and> merged_layer o2 =
               (merged_layer o1)
                 \<lparr>techniques := map (\<lambda>t. t\<lparr>color := Some []\<rparr>) (techniques (merged_layer o1)),
                  name := str_nat (length files2) @ '' layers merged'',
                  description :=
                    Some (''ATT&CK Techniques used by ''
                          @ strip (join '', '' (map (\<lambda>(l, f). snd (get_layer_name l f))
                                                   (import_mnl files2)))
                          @ ''. Maximum score is '' @ str_int (max_score o2)),
                  gradient := (gradient (merged_layer o1))\<lparr>maxValue := max_score o2\<rparr>\<rparr>
           \<and> name (merged_layer o2) \<noteq> name (merged_layer o1)))
   \<and> (None \<in> snd ` set files1 \<and> (\<forall>l\<in>set (List.map_filter snd files1). description l \<noteq> None) \<longrightarrow>
        merge_layers_path files1 = Inl (Exit 1))
   \<and> merge_navigator_layers (filter (\<lambda>f. snd f \<noteq> None) files2) = merge_navigator_layers files2
   \<and> (None \<notin> snd ` set files1 \<and> (\<exists>l\<in>set (List.map_filter snd files1). description l = None) \<longrightarrow>
        merge_layers_path files1 = Inl TypeError
        \<and> (\<exists>o2. merge_navigator_layers files2 = Inr o2))"
proof (intro conjI impI)
  assume "files1 = []"
  then show "merge_layers_path files1 = Inr None" by (simp add: merge_layers_path_def merge_ml_def)
next
  assume "files1 = []"
  then have "files2 = []" using same by simp
  then show "merge_navigator_layers files2 = Inl (Exit 0)"
    by (simp add: merge_navigator_layers_def merge_mnl_def)
next
  assume h: "files1 \<noteq> [] \<and> (\<forall>f\<in>set files1. \<exists>l d. snd f = Some l \<and> description l = Some d)"
  let ?ls = "List.map_filter snd files1"
  let ?lfs = "import_mnl files2"
  let ?M = "merged_val ?ls"
  let ?mx1 = "foldl max 1 (enabled_scores ?M)" and ?mx2 = "foldl max 0 (enabled_scores ?M)"
  let ?l1 = "set_metadata_ml (last (init_layers ?ls)\<lparr>techniques := map post_val_ml ?M\<rparr>) ns ?mx1"
  have all: "\<forall>f\<in>set files1. \<exists>l d. snd f = Some l \<and> description l = Some d" using h by simp
  obtain ns ws where i: "import_ml files1 = Inr (?ls, ns, ws)"
    and a: "list_all2 (\<lambda>f n. \<exists>l w. snd f = Some l \<and> layer_name_ml l (fst f) = Inr (w, n)) files1 ns"
    using import_ml_described [OF all] by blast
  have p1: "None \<notin> snd ` set files1" using all by force
  have "snd ` set files1 = snd ` set files2" using same by (metis set_map)
  then have p2: "None \<notin> snd ` set files2" using p1 by simp
  have len: "length ?lfs = length files2" using p2 by (rule import_mnl_length)
  have "length files1 = length files2" using same by (metis length_map)
  then have ne2: "files2 \<noteq> []" using h by auto
  then have ne: "?lfs \<noteq> []" using len by auto
  have fst: "map fst ?lfs = ?ls"
    using map_filter_snd_same [OF same] by (simp add: import_mnl_layers)
  have nels: "?ls \<noteq> []" using ne fst by auto
  define o1 where "o1 =
     \<lparr>merged_layer =
        set_metadata_ml (last (init_layers ?ls)\<lparr>techniques := map post_val_ml ?M\<rparr>) ns ?mx1,
      max_score = ?mx1, number_of_techniques_disabled = count_disabled ?M\<rparr>"
  define o2 where "o2 =
     \<lparr>merged_layer =
        set_metadata_mnl (last (init_layers ?ls)\<lparr>techniques := map post_val_mnl ?M\<rparr>) ?lfs ?mx2,
      max_score = ?mx2, number_of_techniques_disabled = count_disabled ?M\<rparr>"
  have r1: "merge_layers_path files1 = Inr (Some o1)"
    unfolding o1_def by (simp add: merge_layers_path_def i merge_ml_eq [OF nels])
  have "merge_mnl ?lfs = Inr o2"
    unfolding o2_def by (subst merge_mnl_eq [OF ne]) (simp only: fst)
  then have r2: "merge_navigator_layers files2 = Inr o2" by (simp add: merge_navigator_layers_def)
  have lo1: "merged_layer o1 =
      set_metadata_ml (last (init_layers ?ls)\<lparr>techniques := map post_val_ml ?M\<rparr>) ns ?mx1"
    by (simp add: o1_def)
  have lo2: "merged_layer o2 =
      set_metadata_mnl (last (init_layers ?ls)\<lparr>techniques := map post_val_mnl ?M\<rparr>) ?lfs ?mx2"
    by (simp add: o2_def)
  have mo2: "max_score o2 = ?mx2" by (simp add: o2_def)
  have t: "techniques (merged_layer o2) =
      map (\<lambda>t. t\<lparr>color := Some []\<rparr>) (techniques (merged_layer o1))"
    unfolding lo1 lo2 by (simp add: post_val_mnl_map)
  have d: "number_of_techniques_disabled o2 = number_of_techniques_disabled o1"
    by (simp add: o1_def o2_def)
  have "foldl max (max 1 0) (enabled_scores ?M) = max (1::int) (foldl max 0 (enabled_scores ?M))"
    by (rule foldl_max_shift)
  then have m: "max_score o1 = max 1 (max_score o2)" by (simp add: o1_def o2_def)
  have n1: "name (merged_layer o1) = ''Matrix of aggregated techniques''"
    by (simp add: o1_def set_metadata_ml_name)
  have d1: "description (merged_layer o1) =
      Some (''ATT&CK Techniques used by '' @ strip (join '', '' ns))"
    by (simp add: o1_def set_metadata_ml_name)
  have e: "merged_layer o2 =
      (merged_layer o1)
        \<lparr>techniques := map (\<lambda>t. t\<lparr>color := Some []\<rparr>) (techniques (merged_layer o1)),
         name := str_nat (length files2) @ '' layers merged'',
         description :=
           Some (''ATT&CK Techniques used by ''
                 @ strip (join '', '' (map (\<lambda>(l, f). snd (get_layer_name l f)) (import_mnl files2)))
                 @ ''. Maximum score is '' @ str_int (max_score o2)),
         gradient := (gradient (merged_layer o1))\<lparr>maxValue := max_score o2\<rparr>\<rparr>"
    unfolding lo1 lo2 mo2 len [symmetric] by (rule merged_layers_related)
  have "name (merged_layer o2) = str_nat (length files2) @ '' layers merged''"
    unfolding lo2 len [symmetric] by (simp add: set_metadata_mnl_def set_display_def Let_def)
  then have n2: "name (merged_layer o2) \<noteq> name (merged_layer o1)"
    unfolding n1 by (simp only: merged_name_differs not_False_eq_True)
  show "\<exists>o1 o2 ns ws.
           import_ml files1 = Inr (List.map_filter snd files1, ns, ws)
           \<and> list_all2 (\<lambda>f n. \<exists>l w. snd f = Some l \<and> layer_name_ml l (fst f) = Inr (w, n)) files1 ns
           \<and> merge_layers_path files1 = Inr (Some o1)
           \<and> merge_navigator_layers files2 = Inr o2
           \<and> techniques (merged_layer o2) =
               map (\<lambda>t. t\<lparr>color := Some []\<rparr>) (techniques (merged_layer o1))
           \<and> number_of_techniques_disabled o2 = number_of_techniques_disabled o1
           \<and> max_score o1 = max 1 (max_score o2)
           \<and> name (merged_layer o1) = ''Matrix of aggregated techniques''
           \<and> description (merged_layer o1) =
               Some (''ATT&CK Techniques used by '' @ strip (join '', '' ns))
           \<and> merged_layer o2 =
               (merged_layer o1)
                 \<lparr>techniques := map (\<lambda>t. t\<lparr>color := Some []\<rparr>) (techniques (merged_layer o1)),
                  name := str_nat (length files2) @ '' layers merged'',
                  description :=
                    Some (''ATT&CK Techniques used by ''
                          @ strip (join '', '' (map (\<lambda>(l, f). snd (get_layer_name l f))
                                                   (import_mnl files2)))
                          @ ''. Maximum score is '' @ str_int (max_score o2)),
                  gradient := (gradient (merged_layer o1))\<lparr>maxValue := max_score o2\<rparr>\<rparr>
           \<and> name (merged_layer o2) \<noteq> name (merged_layer o1)"
    using i a r1 r2 t d m n1 d1 e n2 by (intro exI conjI)
next
  assume "None \<in> snd ` set files1 \<and> (\<forall>l\<in>set (List.map_filter snd files1). description l \<noteq> None)"
  then have "import_ml files1 = Inl (Exit 1)" by (intro import_ml_exit) simp_all
  then show "merge_layers_path files1 = Inl (Exit 1)" by (simp add: merge_layers_path_def)
next
  show "merge_navigator_layers (filter (\<lambda>f. snd f \<noteq> None) files2) = merge_navigator_layers files2"
    unfolding merge_navigator_layers_def import_mnl_filter by (rule refl)
next
  assume "None \<notin> snd ` set files1 \<and> (\<exists>l\<in>set (List.map_filter snd files1). description l = None)"
  then have "import_ml files1 = Inl TypeError" by (intro import_ml_type_error) simp_all
  then show "merge_layers_path files1 = Inl TypeError" by (simp add: merge_layers_path_def)
next
  assume h: "None \<notin> snd ` set files1 \<and> (\<exists>l\<in>set (List.map_filter snd files1). description l = None)"
  have "List.map_filter snd files1 \<noteq> []" using h by auto
  then have "map fst (import_mnl files2) \<noteq> []"
    using map_filter_snd_same [OF same] by (simp add: import_mnl_layers)
  then have ne: "import_mnl files2 \<noteq> []" by auto
  show "\<exists>o2. merge_navigator_layers files2 = Inr o2"
    by (subst merge_navigator_layers_def, subst merge_mnl_eq [OF ne]) (rule exI, rule refl)
qed

theorem merge_entry_points_compared_witness:
  "(\<exists>o1 o2. merge_layers_path scenario_paths = Inr (Some o1)
       \<and> merge_navigator_layers scenario_files = Inr o2
       \<and> techniques (merged_layer o2) =
           map (\<lambda>t. t\<lparr>color := Some []\<rparr>) (techniques (merged_layer o1))
       \<and> number_of_techniques_disabled o2 = number_of_techniques_disabled o1
       \<and> max_score o1 = max 1 (max_score o2)
       \<and> name (merged_layer o1) = ''Matrix of aggregated techniques''
       \<and> name (merged_layer o2) \<noteq> name (merged_layer o1))
   \<and> merge_layers_path [] = Inr None
   \<and> merge_navigator_layers [] = Inl (Exit 0)
   \<and> merge_layers_path [(''layers/G0001.json'', Some scenario_doc1), (''layers/bad.json'', None)]
       = Inl (Exit 1)
   \<and> merge_navigator_layers
         (filter (\<lambda>f. snd f \<noteq> None) [(''G0001.json'', Some scenario_doc1), (''bad.json'', None)])
       = merge_navigator_layers [(''G0001.json'', Some scenario_doc1), (''bad.json'', None)]
   \<and> merge_layers_path [(''layers/G0001.json'', Some undescribed_doc)] = Inl TypeError
   \<and> (\<exists>o2. merge_navigator_layers [(''G0001.json'', Some undescribed_doc)] = Inr o2)"
proof -
  let ?bad1 = "[(''layers/G0001.json'', Some scenario_doc1), (''layers/bad.json'', None)]"
  let ?bad2 = "[(''G0001.json'', Some scenario_doc1), (''bad.json'', None)]"
  let ?und1 = "[(''layers/G0001.json'', Some undescribed_doc)]"
  let ?und2 = "[(''G0001.json'', Some undescribed_doc)]"
  let ?none = "[] :: (string \<times> Layer option) list"
  have s0: "map snd ?none = map snd ?none" by simp
  have s1: "map snd scenario_paths = map snd scenario_files"
    by (simp add: scenario_paths_def scenario_files_def)
  have s3: "map snd ?bad1 = map snd ?bad2" by simp
  have s4: "map snd ?und1 = map snd ?und2" by simp
  have h1: "scenario_paths \<noteq> []
      \<and> (\<forall>f\<in>set scenario_paths. \<exists>l d. snd f = Some l \<and> description l = Some d)"
    by (simp add: scenario_paths_def scenario_doc1_def scenario_doc2_def example_layer_def)
  have h3: "None \<in> snd ` set ?bad1 \<and> (\<forall>l\<in>set (List.map_filter snd ?bad1). description l \<noteq> None)"
    by (simp add: scenario_doc1_def example_layer_def)
  have h4: "None \<notin> snd ` set ?und1 \<and> (\<exists>l\<in>set (List.map_filter snd ?und1). description l = None)"
    by (simp add: undescribed_doc_def)
  note i0 = merge_entry_points_compared [OF s0, THEN conjunct1, THEN mp, OF refl]
  note i1 = merge_entry_points_compared [OF s1, THEN conjunct2, THEN conjunct1, THEN mp, OF h1]
  note i3 = merge_entry_points_compared [OF s3, THEN conjunct2, THEN conjunct2]
  note i4 = merge_entry_points_compared [OF s4, THEN conjunct2, THEN conjunct2, THEN conjunct2,
      THEN conjunct2, THEN mp, OF h4]
  obtain o1 o2 where a1: "merge_layers_path scenario_paths = Inr (Some o1)"
    and a2: "merge_navigator_layers scenario_files = Inr o2"
    and a3: "techniques (merged_layer o2) =
           map (\<lambda>t. t\<lparr>color := Some []\<rparr>) (techniques (merged_layer o1))"
    and a4: "number_of_techniques_disabled o2 = number_of_techniques_disabled o1"
    and a5: "max_score o1 = max 1 (max_score o2)"
    and a6: "name (merged_layer o1) = ''Matrix of aggregated techniques''"
    and a7: "name (merged_layer o2) \<noteq> name (merged_layer o1)"
    using i1 by blast
  have a: "\<exists>o1 o2. merge_layers_path scenario_paths = Inr (Some o1)
       \<and> merge_navigator_layers scenario_files = Inr o2
       \<and> techniques (merged_layer o2) =
           map (\<lambda>t. t\<lparr>color := Some []\<rparr>) (techniques (merged_layer o1))
       \<and> number_of_techniques_disabled o2 = number_of_techniques_disabled o1
       \<and> max_score o1 = max 1 (max_score o2)
       \<and> name (merged_layer o1) = ''Matrix of aggregated techniques''
       \<and> name (merged_layer o2) \<noteq> name (merged_layer o1)"
    using a1 a2 a3 a4 a5 a6 a7 by (intro exI conjI)
  have b: "merge_layers_path [] = Inr None" using i0 by (rule conjunct1)
  have c: "merge_navigator_layers [] = Inl (Exit 0)" using i0 by (rule conjunct2)
  have d: "merge_layers_path ?bad1 = Inl (Exit 1)"
    using i3 [THEN conjunct1, THEN mp, OF h3] .
  have e: "merge_navigator_layers (filter (\<lambda>f. snd f \<noteq> None) ?bad2) = merge_navigator_layers ?bad2"
    using i3 [THEN conjunct2, THEN conjunct1] .
  have f: "merge_layers_path ?und1 = Inl TypeError" using i4 by (rule conjunct1)
  have g: "\<exists>o2. merge_navigator_layers ?und2 = Inr o2" using i4 by (rule conjunct2)
  show ?thesis using a b c d e f g by (intro conjI)
qed

lemma match_id_take: "match_id s \<Longrightarrow> is_short_id (take 5 s) \<and> s = take 5 s @ drop 5 s"
  by (erule match_id.elims) simp_all

lemma short_id_match: "is_short_id n \<Longrightarrow> match_id (n @ post)"
  by (erule is_short_id.elims) simp_all

lemma search_id_Some:
  "search_id s = Some g \<Longrightarrow> \<exists>pre post. s = pre @ g @ post \<and> is_short_id g"
proof (induction s)
  case Nil
  then show ?case by simp
next
  case (Cons c cs)
  show ?case
  proof (cases "match_id (c # cs)")
    case True
    then have g: "g = take 5 (c # cs)" using Cons.prems by simp
    have "is_short_id (take 5 (c # cs)) \<and> c # cs = take 5 (c # cs) @ drop 5 (c # cs)"
      using True by (rule match_id_take)
    then have "c # cs = [] @ g @ drop 5 (c # cs) \<and> is_short_id g" unfolding g by simp
    then show ?thesis by blast
  next
    case False
    then have "search_id cs = Some g" using Cons.prems by simp
    then obtain pre post where "cs = pre @ g @ post" and s: "is_short_id g"
      using Cons.IH by blast
    then have "c # cs = (c # pre) @ g @ post" by simp
    then show ?thesis using s by blast
  qed
qed

lemma search_id_finds: "match_id x \<Longrightarrow> search_id (pre @ x) \<noteq> None"
proof (induction pre)
  case Nil
  then show ?case by (cases x) simp_all
next
  case (Cons c pre)
  then show ?case by simp
qed

lemma search_id_None:
  "search_id s = None \<Longrightarrow> \<not> (\<exists>pre idn post. s = pre @ idn @ post \<and> is_short_id idn)"
proof
  assume n: "search_id s = None" and "\<exists>pre idn post. s = pre @ idn @ post \<and> is_short_id idn"
  then obtain pre idn post where s: "s = pre @ idn @ post" and i: "is_short_id idn" by blast
  have "match_id (idn @ post)" using i by (rule short_id_match)
  then have "search_id (pre @ idn @ post) \<noteq> None" by (rule search_id_finds)
  then show False using n s by simp
qed

lemma match_paren_id_take:
  "match_paren_id s \<Longrightarrow>
   \<exists>n. take 7 s = ''('' @ n @ '')'' \<and> is_short_id n \<and> s = take 7 s @ drop 7 s"
  by (erule match_paren_id.elims) simp_all

lemma paren_id_match: "is_short_id n \<Longrightarrow> match_paren_id (''('' @ n @ '')'' @ post)"
  by (erule is_short_id.elims) simp_all

lemma search_paren_id_Some:
  "search_paren_id s = Some g \<Longrightarrow>
   \<exists>pre n post. s = pre @ ''('' @ n @ '')'' @ post \<and> g = ''('' @ n @ '')'' \<and> is_short_id n"
proof (induction s)
  case Nil
  then show ?case by simp
next
  case (Cons c cs)
  show ?case
  proof (cases "match_paren_id (c # cs)")
    case True
    then have g: "g = take 7 (c # cs)" using Cons.prems by simp
    obtain n where n: "take 7 (c # cs) = ''('' @ n @ '')''" and i: "is_short_id n"
      and s: "c # cs = take 7 (c # cs) @ drop 7 (c # cs)"
      using match_paren_id_take [OF True] by blast
    have "c # cs = [] @ ''('' @ n @ '')'' @ drop 7 (c # cs)" using s unfolding n by simp
    then show ?thesis using g n i by blast
  next
    case False
    then have "search_paren_id cs = Some g" using Cons.prems by simp
    then obtain pre n post where "cs = pre @ ''('' @ n @ '')'' @ post"
      and r: "g = ''('' @ n @ '')''" "is_short_id n"
      using Cons.IH by blast
    then have "c # cs = (c # pre) @ ''('' @ n @ '')'' @ post" by simp
    then show ?thesis using r by blast
  qed
qed

lemma search_paren_id_finds: "match_paren_id x \<Longrightarrow> search_paren_id (pre @ x) \<noteq> None"
proof (induction pre)
  case Nil
  then show ?case by (cases x) simp_all
next
  case (Cons c pre)
  then show ?case by simp
qed

lemma search_paren_id_None:
  "search_paren_id s = None \<Longrightarrow>
   \<not> (\<exists>pre idn post. s = pre @ ''('' @ idn @ '')'' @ post \<and> is_short_id idn)"
proof
  assume n: "search_paren_id s = None"
    and "\<exists>pre idn post. s = pre @ ''('' @ idn @ '')'' @ post \<and> is_short_id idn"
  then obtain pre idn post where s: "s = pre @ ''('' @ idn @ '')'' @ post" and i: "is_short_id idn"
    by blast
  have "match_paren_id (''('' @ idn @ '')'' @ post)" using i by (rule paren_id_match)
  then have "search_paren_id (pre @ ''('' @ idn @ '')'' @ post) \<noteq> None"
    by (rule search_paren_id_finds)
  then show False using n s by simp
qed

lemma strip_parens: "is_short_id n \<Longrightarrow> strip_chars (\<lambda>c. c = CHR ''('' \<or> c = CHR '')'') (''('' @ n @ '')'') = n"
  by (erule is_short_id.elims) (auto simp add: strip_chars_def is_upper_def is_digit_def)

lemma file_name_of_path_last:
  "CHR ''/'' \<notin> set f \<Longrightarrow> CHR 0x5C \<notin> set f \<Longrightarrow> file_name_of_path (dir @ ''/'' @ f) = f"
proof -
  assume a: "CHR ''/'' \<notin> set f" and b: "CHR 0x5C \<notin> set f"
  let ?r = "\<lambda>c. if c = CHR 0x5C then CHR ''/'' else c"
  have m: "map ?r f = f" using b by (induction f) auto
  have "takeWhile (\<lambda>c. c \<noteq> CHR ''/'') (rev f @ CHR ''/'' # rev (map ?r dir))
        = rev f @ takeWhile (\<lambda>c. c \<noteq> CHR ''/'') (CHR ''/'' # rev (map ?r dir))"
  proof (rule takeWhile_append2)
    fix x assume "x \<in> set (rev f)"
    then show "x \<noteq> CHR ''/''" using a by auto
  qed
  then have t: "takeWhile (\<lambda>c. c \<noteq> CHR ''/'') (rev f @ CHR ''/'' # rev (map ?r dir)) = rev f"
    by simp
  show ?thesis by (simp add: file_name_of_path_def m t)
qed

lemma named_layer_fields [simp]:
  "name (named_layer n d) = n" "description (named_layer n d) = d"
  by (simp_all add: named_layer_def example_layer_def)

lemma char_class_simps [simp]:
  "is_upper CHR ''G''" "is_upper CHR ''A''" "is_digit CHR ''0''" "is_digit CHR ''1''"
  "is_digit CHR ''2''" "is_digit CHR ''3''" "is_digit CHR ''4''" "is_digit CHR ''5''"
  "is_digit CHR ''6''" "\<not> is_upper CHR ''P''  \<or> \<not> is_digit CHR ''T''"
  "\<not> is_upper CHR '' ''" "\<not> is_upper CHR ''n''" "\<not> is_upper CHR ''o''"
  "\<not> is_upper CHR ''i''" "\<not> is_upper CHR ''d''" "\<not> is_upper CHR ''b''"
  "\<not> is_upper CHR ''u''" "\<not> is_upper CHR ''l''" "\<not> is_upper CHR ''(''"
  "\<not> is_digit CHR ''P''" "\<not> is_digit CHR ''T''" "\<not> is_digit CHR '' ''"
  "\<not> is_upper CHR ''0''" "\<not> is_upper CHR ''6''" "\<not> is_upper CHR ''1''"
  by (simp_all add: is_upper_def is_digit_def)

text \<open>
  C9, as the claim states it, fails. \<^verbatim>\<open>get_layer_name\<close> wants the parentheses: on the
  name "APT1 G0006" it falls back to the file label. \<^verbatim>\<open>merge_layers.py\<close> falls back to the
  file name with its extension, returns the first five characters of "A12345" (five
  digits follow the letter), and raises \<^verbatim>\<open>TypeError\<close> on a layer without description.
\<close>

theorem source_label_counterexample:
  "get_layer_name (named_layer ''APT1 G0006'' (Some [])) ''G0006-enterprise''
     = ([name_warning ''G0006-enterprise''], ''G0006-enterprise'')
   \<and> layer_name_ml (named_layer ''APT1'' (Some ''no id'')) ''dir/CUSTOM1.json''
     = Inr ([name_warning ''dir/CUSTOM1.json''], ''CUSTOM1.json'')
   \<and> layer_name_ml (named_layer ''APT1'' (Some ''build A12345'')) ''dir/CUSTOM1.json''
     = Inr ([], ''A1234'')
   \<and> layer_name_ml (named_layer ''APT1'' None) ''dir/CUSTOM1.json'' = Inl TypeError"
  by (simp add: get_layer_name_def layer_name_ml_def file_name_of_path_def)

text \<open>
  C9, amended. \<^verbatim>\<open>get_layer_name\<close> of \<^verbatim>\<open>merge_navigator_layers.py\<close> never fails: when the
  layer's name holds an uppercase letter and exactly four digits between parentheses, it
  returns such an identifier, without its parentheses and without a warning; otherwise it
  returns the file label it was given, unchanged, with one warning. \<^verbatim>\<open>merge_layers.py\<close>,
  on a layer whose description is a string: when the description holds an uppercase
  letter followed by four digits (parentheses are not needed, more digits may follow), it
  returns such five characters without a warning; otherwise it returns the file name,
  which is the last component of the path with its extension, with one warning.
\<close>

theorem source_label_resolution:
  "((\<exists>pre post. name l = pre @ ''('' @ snd (get_layer_name l f) @ '')'' @ post
        \<and> is_short_id (snd (get_layer_name l f)) \<and> fst (get_layer_name l f) = [])
    \<or> (\<not> (\<exists>pre idn post. name l = pre @ ''('' @ idn @ '')'' @ post \<and> is_short_id idn)
        \<and> get_layer_name l f = ([name_warning f], f)))
   \<and> (description l = Some d \<longrightarrow>
        (\<exists>w n. layer_name_ml l p = Inr (w, n) \<and>
           ((\<exists>pre post. d = pre @ n @ post \<and> is_short_id n \<and> w = [])
            \<or> (\<not> (\<exists>pre idn post. d = pre @ idn @ post \<and> is_short_id idn)
                \<and> w = [name_warning p] \<and> n = file_name_of_path p))))
   \<and> (CHR ''/'' \<notin> set fn \<and> CHR 0x5C \<notin> set fn \<longrightarrow> file_name_of_path (dir @ ''/'' @ fn) = fn)"
proof (intro conjI impI)
  show "(\<exists>pre post. name l = pre @ ''('' @ snd (get_layer_name l f) @ '')'' @ post
        \<and> is_short_id (snd (get_layer_name l f)) \<and> fst (get_layer_name l f) = [])
    \<or> (\<not> (\<exists>pre idn post. name l = pre @ ''('' @ idn @ '')'' @ post \<and> is_short_id idn)
        \<and> get_layer_name l f = ([name_warning f], f))"
  proof (cases "search_paren_id (name l)")
    case None
    then have "\<not> (\<exists>pre idn post. name l = pre @ ''('' @ idn @ '')'' @ post \<and> is_short_id idn)"
      by (rule search_paren_id_None)
    moreover have "get_layer_name l f = ([name_warning f], f)"
      using None by (simp add: get_layer_name_def)
    ultimately show ?thesis by blast
  next
    case (Some g)
    then obtain pre n post where s: "name l = pre @ ''('' @ n @ '')'' @ post"
      and g: "g = ''('' @ n @ '')''" and i: "is_short_id n"
      using search_paren_id_Some by blast
    have "get_layer_name l f = ([], n)"
      using Some strip_parens [OF i] unfolding g by (simp add: get_layer_name_def)
    then show ?thesis using s i by auto
  qed
next
  assume d: "description l = Some d"
  show "\<exists>w n. layer_name_ml l p = Inr (w, n) \<and>
           ((\<exists>pre post. d = pre @ n @ post \<and> is_short_id n \<and> w = [])
            \<or> (\<not> (\<exists>pre idn post. d = pre @ idn @ post \<and> is_short_id idn)
                \<and> w = [name_warning p] \<and> n = file_name_of_path p))"
  proof (cases "search_id d")
    case None
    then have "\<not> (\<exists>pre idn post. d = pre @ idn @ post \<and> is_short_id idn)"
      by (rule search_id_None)
    moreover have "layer_name_ml l p = Inr ([name_warning p], file_name_of_path p)"
      using None d by (simp add: layer_name_ml_def)
    ultimately show ?thesis by blast
  next
    case (Some g)
    then obtain pre post where "d = pre @ g @ post" and "is_short_id g"
      using search_id_Some by blast
    moreover have "layer_name_ml l p = Inr ([], g)" using Some d by (simp add: layer_name_ml_def)
    ultimately show ?thesis by blast
  qed
next
  assume h: "CHR ''/'' \<notin> set fn \<and> CHR 0x5C \<notin> set fn"
  have a: "CHR ''/'' \<notin> set fn" and b: "CHR 0x5C \<notin> set fn" using h by simp_all
  show "file_name_of_path (dir @ ''/'' @ fn) = fn" using a b by (rule file_name_of_path_last)
qed

theorem source_label_resolution_witness:
  "get_layer_name (named_layer ''APT1 (G0006)'' (Some ''Techniques of G0006'')) ''G0006-enterprise''
     = ([], ''G0006'')
   \<and> is_short_id ''G0006''
   \<and> get_layer_name (named_layer ''APT1'' (Some ''no id'')) ''CUSTOM1'' = ([name_warning ''CUSTOM1''], ''CUSTOM1'')
   \<and> (\<exists>w n. layer_name_ml (named_layer ''APT1 (G0006)'' (Some ''Techniques of G0006'')) ''dir/G0006.json''
             = Inr (w, n) \<and> w = [] \<and> is_short_id n)
   \<and> (\<exists>w n. layer_name_ml (named_layer ''APT1'' (Some ''no id'')) ''dir/CUSTOM1.json''
             = Inr (w, n) \<and> w = [name_warning ''dir/CUSTOM1.json''] \<and> n = ''CUSTOM1.json'')
   \<and> file_name_of_path (''dir'' @ ''/'' @ ''CUSTOM1.json'') = ''CUSTOM1.json''"
proof -
  let ?l1 = "named_layer ''APT1 (G0006)'' (Some ''Techniques of G0006'')"
  let ?l2 = "named_layer ''APT1'' (Some ''no id'')"
  note i1 = source_label_resolution [of ?l1 "''G0006-enterprise''" "''Techniques of G0006''"
      "''dir/G0006.json''" "''CUSTOM1.json''" "''dir''"]
  note i2 = source_label_resolution [of ?l2 "''CUSTOM1''" "''no id''"
      "''dir/CUSTOM1.json''" "''CUSTOM1.json''" "''dir''"]
  have a: "get_layer_name ?l1 ''G0006-enterprise'' = ([], ''G0006'')"
    by (simp add: get_layer_name_def strip_chars_def)
  have b: "is_short_id ''G0006''" by simp
  have m1: "\<exists>pre idn post. ''Techniques of G0006'' = pre @ idn @ post \<and> is_short_id idn"
  proof (intro exI conjI)
    show "''Techniques of G0006'' = ''Techniques of '' @ ''G0006'' @ []" by simp
    show "is_short_id ''G0006''" by simp
  qed
  have c: "\<exists>w n. layer_name_ml ?l1 ''dir/G0006.json'' = Inr (w, n) \<and> w = [] \<and> is_short_id n"
    using i1 [THEN conjunct2, THEN conjunct1] m1 by auto
  have s2: "search_paren_id ''APT1'' = None" by simp
  have n2: "\<not> (\<exists>pre post. name ?l2 = pre @ ''('' @ snd (get_layer_name ?l2 ''CUSTOM1'') @ '')'' @ post
        \<and> is_short_id (snd (get_layer_name ?l2 ''CUSTOM1'')) \<and> fst (get_layer_name ?l2 ''CUSTOM1'') = [])"
    using s2 by (simp add: get_layer_name_def)
  have d: "get_layer_name ?l2 ''CUSTOM1'' = ([name_warning ''CUSTOM1''], ''CUSTOM1'')"
    using i2 [THEN conjunct1] n2 by blast
  have f: "file_name_of_path (''dir'' @ ''/'' @ ''CUSTOM1.json'') = ''CUSTOM1.json''"
    using i2 [THEN conjunct2, THEN conjunct2] by simp
  have s3: "search_id ''no id'' = None" by simp
  have n3: "\<not> (\<exists>pre idn post. ''no id'' = pre @ idn @ post \<and> is_short_id idn)"
    using s3 by (rule search_id_None)
  have "file_name_of_path ''dir/CUSTOM1.json'' = ''CUSTOM1.json''" using f by simp
  then have e: "\<exists>w n. layer_name_ml ?l2 ''dir/CUSTOM1.json''
             = Inr (w, n) \<and> w = [name_warning ''dir/CUSTOM1.json''] \<and> n = ''CUSTOM1.json''"
    using i2 [THEN conjunct2, THEN conjunct1] n3 by auto
  show ?thesis using a b c d e f by (intro conjI)
qed

end
